theory Spec2Isabelle
  imports Complex_Main
begin

section \<open>Data model\<close>

text \<open>
  The enumerations of \<^verbatim>\<open>types/schedule.ts\<close>. Instants (\<^verbatim>\<open>Date\<close>, \<^verbatim>\<open>timestamptz\<close>)
  are integers: milliseconds since the epoch, which is what \<^verbatim>\<open>getTime()\<close> returns and
  what the comparisons of the SQL queries order. The \<^verbatim>\<open>notes\<close> column (jsonb) is opaque
  to every function modelled here and is carried as a list of key/value texts.
\<close>

datatype AppointmentType =
    CONSULTATION | FOLLOW_UP | CHECK_UP | EMERGENCY | VACCINATION | SCREENING
  | THERAPY | SURGERY | DIAGNOSTIC | PREVENTIVE | SPECIALIST | ROUTINE

datatype AppointmentStatus = SCHEDULED | CONFIRMED | CANCELLED | COMPLETED

type_synonym date = int

type_synonym json = "(string \<times> string) list"

text \<open>
  \<^verbatim>\<open>ScheduleRequest\<close> and \<^verbatim>\<open>Appointment\<close>/\<^verbatim>\<open>AppointmentEntity\<close> share nine fields; they are
  the common part of both records, so that the field names of the source serve for both.
  An optional field (\<^verbatim>\<open>email?: string\<close>) is an option, \<open>None\<close> standing for
  \<^verbatim>\<open>undefined\<close> and \<^verbatim>\<open>null\<close>. The names \<^verbatim>\<open>id\<close> and \<^verbatim>\<open>type\<close> carry a prime.
\<close>

record AppointmentData =
  firstName :: string
  lastName :: string
  email :: "string option"
  phoneNumber :: "string option"
  startAt :: date
  endAt :: date
  type' :: AppointmentType
  "notes" :: json
  reason :: "string option"

record ScheduleRequest = AppointmentData +
  callId :: "string option"

record AppointmentEntity = AppointmentData +
  id' :: "string option"
  status :: AppointmentStatus
  calendarEventId :: "string option"
  createdAt :: "date option"
  updatedAt :: "date option"

text \<open>\<^verbatim>\<open>Partial<ScheduleRequest>\<close>, the payload of \<^verbatim>\<open>editAppointment\<close>: every field may be absent.\<close>

record ScheduleRequestPartial =
  p_firstName :: "string option"
  p_lastName :: "string option"
  p_email :: "string option"
  p_phoneNumber :: "string option"
  p_startAt :: "date option"
  p_endAt :: "date option"
  p_type :: "AppointmentType option"
  p_notes :: "json option"
  p_reason :: "string option"
  p_callId :: "string option"

text \<open>
  A row of the table \<^verbatim>\<open>appointments\<close> (the schema of the README and of the integration
  test): \<^verbatim>\<open>id\<close>, \<^verbatim>\<open>start_at\<close>, \<^verbatim>\<open>end_at\<close>, \<^verbatim>\<open>type\<close>, \<^verbatim>\<open>status\<close>, \<^verbatim>\<open>notes\<close>,
  \<^verbatim>\<open>created_at\<close> and the two names are \<^verbatim>\<open>not null\<close>; the other columns are nullable.
\<close>

record appointments_row =
  id_col :: string
  first_name :: string
  last_name :: string
  email_col :: "string option"
  phone_number :: "string option"
  start_at :: date
  end_at :: date
  type_col :: AppointmentType
  status_col :: AppointmentStatus
  notes_col :: json
  reason_col :: "string option"
  calendar_event_id :: "string option"
  created_at :: date
  updated_at :: "date option"

section \<open>Errors\<close>

text \<open>
  The classes of \<^verbatim>\<open>types/errors.ts\<close>, each with its message, and the values that are
  thrown without being one of them: a plain \<^verbatim>\<open>Error\<close>, the \<^verbatim>\<open>TypeError\<close> of a property
  read on \<^verbatim>\<open>undefined\<close>, the error a rejected \<^verbatim>\<open>pool.query\<close> carries (named by its
  SQLSTATE code when a constraint is violated, by its message otherwise), and a thrown
  value that is not an instance of \<^verbatim>\<open>Error\<close>.
\<close>

datatype error =
    ValidationError string
  | ConflictError string
  | NotFoundError string
  | AppointmentCancellationError string
  | AppointmentReschedulingError string
  | TimeSlotUnavailableError string
  | PastDateError string
  | Error string
  | TypeError string
  | DatabaseError string
  | NonError string

fun code :: "error \<Rightarrow> string option" where
  "code (ValidationError m) = Some ''VALIDATION_ERROR''"
| "code (ConflictError m) = Some ''CONFLICT_ERROR''"
| "code (NotFoundError m) = Some ''NOT_FOUND''"
| "code (AppointmentCancellationError m) = Some ''APPOINTMENT_CANCELLATION_ERROR''"
| "code (AppointmentReschedulingError m) = Some ''APPOINTMENT_RESCHEDULING_ERROR''"
| "code (TimeSlotUnavailableError m) = Some ''TIME_SLOT_UNAVAILABLE''"
| "code (PastDateError m) = Some ''PAST_DATE_ERROR''"
| "code (Error m) = None"
| "code (TypeError m) = None"
| "code (DatabaseError m) = None"
| "code (NonError m) = None"

fun instanceofError :: "error \<Rightarrow> bool" where
  "instanceofError (NonError v) = False"
| "instanceofError e = True"

fun message :: "error \<Rightarrow> string" where
  "message (ValidationError m) = m"
| "message (ConflictError m) = m"
| "message (NotFoundError m) = m"
| "message (AppointmentCancellationError m) = m"
| "message (AppointmentReschedulingError m) = m"
| "message (TimeSlotUnavailableError m) = m"
| "message (PastDateError m) = m"
| "message (Error m) = m"
| "message (TypeError m) = m"
| "message (DatabaseError m) = m"
| "message (NonError v) = []"

section \<open>The world: table, clock, calendar\<close>

text \<open>
  The calls on the two collaborators, in the order in which they are made. The history
  is ghost state: no function reads it; it lets a theorem speak of which call was made
  and of which came first.
\<close>

datatype event =
    RepoCreate AppointmentEntity
  | RepoUpdate "string option" AppointmentEntity
  | RepoDelete "string option"
  | RepoFindById "string option"
  | RepoGetConflicting date date "string option"
  | RepoGetActive string
  | CalendarCreate AppointmentEntity
  | CalendarUpdate "string option" AppointmentEntity
  | CalendarDelete "string option"

text \<open>
  A JavaScript value as the \<^verbatim>\<open>catch\<close> blocks of \<^verbatim>\<open>CalendarService\<close> look at it: they
  test it for truthiness, compare it with \<^verbatim>\<open>404\<close>, ask whether it is a string, print it.
  An object is named by a string. \<^verbatim>\<open>caught\<close> holds the five properties those blocks
  read of the value \<^verbatim>\<open>err\<close> they caught, each \<^verbatim>\<open>undefined\<close> when it is not there:
  \<^verbatim>\<open>err?.code\<close>, \<^verbatim>\<open>err?.response?.status\<close>, \<^verbatim>\<open>err?.errors\<close>, \<^verbatim>\<open>err?.response?.data\<close>,
  \<^verbatim>\<open>err?.message\<close>. A call of the Google client (\<^verbatim>\<open>this.calendar.events.insert\<close>,
  \<^verbatim>\<open>update\<close>, \<^verbatim>\<open>delete\<close>) is rejected with such a value or resolves to a response, of
  which only \<^verbatim>\<open>response.data.id\<close> is read.
\<close>

datatype jsvalue =
    JsUndefined
  | JsNull
  | JsBoolean bool
  | JsNumber int
  | JsString string
  | JsObject string

record caught =
  err_code :: jsvalue
  err_response_status :: jsvalue
  err_errors :: jsvalue
  err_response_data :: jsvalue
  err_message :: jsvalue

datatype client_answer =
    Rejected caught
  | Resolved "string option"

text \<open>
  What the code cannot decide is read from the environment: whether the \<open>n\<close>-th
  \<^verbatim>\<open>pool.query\<close> is rejected for a reason outside the statement (connection lost,
  timeout), the identifier \<^verbatim>\<open>gen_random_uuid()\<close> draws for it, the answer of the Google
  client to the \<open>n\<close>-th call made on it, the \<open>n\<close>-th reading of the clock
  (\<^verbatim>\<open>new Date()\<close>, \<^verbatim>\<open>now()\<close>), \<^verbatim>\<open>Date.toISOString\<close>, and the text a template literal
  prints for a value that is not a string (\<^verbatim>\<open>valueToString\<close>) and for the
  \<^verbatim>\<open>JSON.stringify\<close> of one (\<^verbatim>\<open>JSON_stringify\<close>).
\<close>

record env =
  dbFault :: "nat \<Rightarrow> string option"
  genId :: "nat \<Rightarrow> string"
  googleCalendar :: "nat \<Rightarrow> client_answer"
  clock :: "nat \<Rightarrow> date"
  toISOString :: "date \<Rightarrow> string"
  valueToString :: "jsvalue \<Rightarrow> string"
  JSON_stringify :: "jsvalue \<Rightarrow> string"

record world =
  appointments :: "appointments_row list"
  queries :: nat
  calendarCalls :: nat
  clockReads :: nat
  trace :: "event list"

definition record_call :: "event \<Rightarrow> world \<Rightarrow> world" where
  "record_call ev w = w\<lparr>trace := trace w @ [ev]\<rparr>"

definition newDate :: "env \<Rightarrow> world \<Rightarrow> date \<times> world" where
  "newDate env w = (clock env (clockReads w), w\<lparr>clockReads := Suc (clockReads w)\<rparr>)"

definition poolFault :: "env \<Rightarrow> world \<Rightarrow> string option \<times> world" where
  "poolFault env w = (dbFault env (queries w), w\<lparr>queries := Suc (queries w)\<rparr>)"

text \<open>JavaScript truthiness of an optional string: \<^verbatim>\<open>undefined\<close>, \<^verbatim>\<open>null\<close> and \<^verbatim>\<open>''\<close> are falsy.\<close>

definition truthy :: "string option \<Rightarrow> bool" where
  "truthy v = (case v of None \<Rightarrow> False | Some s \<Rightarrow> s \<noteq> [])"

text \<open>\<^verbatim>\<open>v || null\<close> and \<^verbatim>\<open>v || undefined\<close>.\<close>

definition orNull :: "string option \<Rightarrow> string option" where
  "orNull v = (if truthy v then v else None)"

section \<open>PostgresAppointmentRepository\<close>

text \<open>
  \<^verbatim>\<open>mapRowToEntity\<close> on a row that is there, and on \<^verbatim>\<open>result.rows[0]\<close>, which is
  \<^verbatim>\<open>undefined\<close> when the statement returned no row: reading \<^verbatim>\<open>row.id\<close> then throws.
  The object literal has the keys \<^verbatim>\<open>id\<close>, \<^verbatim>\<open>status\<close> and \<^verbatim>\<open>createdAt\<close>, so the
  constructor of \<^verbatim>\<open>AppointmentEntity\<close> takes its first branch and copies every field.
\<close>

definition mapRowToEntity :: "appointments_row \<Rightarrow> AppointmentEntity" where
  "mapRowToEntity row =
     \<lparr> firstName = first_name row,
       lastName = last_name row,
       email = orNull (email_col row),
       phoneNumber = orNull (phone_number row),
       startAt = start_at row,
       endAt = end_at row,
       type' = type_col row,
       notes = notes_col row,
       reason = orNull (reason_col row),
       id' = Some (id_col row),
       status = status_col row,
       calendarEventId = orNull (calendar_event_id row),
       createdAt = Some (created_at row),
       updatedAt = updated_at row \<rparr>"

definition mapFirstRow :: "appointments_row list \<Rightarrow> error + AppointmentEntity" where
  "mapFirstRow rows =
     (case rows of
        [] \<Rightarrow> Inl (TypeError ''Cannot read properties of undefined'')
      | row # _ \<Rightarrow> Inr (mapRowToEntity row))"

text \<open>
  The constraints of the schema. \<^verbatim>\<open>appointments_time_range\<close> and
  \<^verbatim>\<open>appointments_contact_required\<close> are checks (SQLSTATE 23514), evaluated on the new
  row before it is stored; the primary key and \<^verbatim>\<open>appointments_unique_slot\<close>, which holds
  for rows of every status, are unique indexes (SQLSTATE 23505). The length limit of
  the two names and the uuid syntax of identifiers are not modelled: identifiers are
  strings, and a statement rejected for such a reason is one of the rejections the
  environment decides.
\<close>

definition violates_check :: "appointments_row \<Rightarrow> bool" where
  "violates_check r =
     (end_at r \<le> start_at r \<or> (email_col r = None \<and> phone_number r = None))"

definition same_slot :: "appointments_row \<Rightarrow> appointments_row \<Rightarrow> bool" where
  "same_slot r r' = (start_at r' = start_at r \<and> end_at r' = end_at r)"

definition violates_unique :: "appointments_row \<Rightarrow> appointments_row list \<Rightarrow> bool" where
  "violates_unique r rows = list_ex (\<lambda>r'. id_col r' = id_col r \<or> same_slot r r') rows"

definition isActive :: "AppointmentStatus \<Rightarrow> bool" where
  "isActive s = (s = SCHEDULED \<or> s = CONFIRMED)"

definition create ::
  "env \<Rightarrow> AppointmentEntity \<Rightarrow> world \<Rightarrow> (error + AppointmentEntity) \<times> world" where
  "create env appointment w0 =
     (let w1 = record_call (RepoCreate appointment) w0;
          n = queries w1
      in case poolFault env w1 of
           (Some m, w2) \<Rightarrow> (Inl (DatabaseError m), w2)
         | (None, w2) \<Rightarrow>
             (case newDate env w2 of
                (now, w3) \<Rightarrow>
                  let row = \<lparr> id_col = genId env n,
                              first_name = firstName appointment,
                              last_name = lastName appointment,
                              email_col = orNull (email appointment),
                              phone_number = orNull (phoneNumber appointment),
                              start_at = startAt appointment,
                              end_at = endAt appointment,
                              type_col = type' appointment,
                              status_col = SCHEDULED,
                              notes_col = notes appointment,
                              reason_col = orNull (reason appointment),
                              calendar_event_id = orNull (calendarEventId appointment),
                              created_at = now,
                              updated_at = None \<rparr>
                  in if violates_check row then (Inl (DatabaseError ''23514''), w3)
                     else if violates_unique row (appointments w3)
                       then (Inl (DatabaseError ''23505''), w3)
                     else (mapFirstRow [row],
                           w3\<lparr>appointments := appointments w3 @ [row]\<rparr>)))"

definition findById ::
  "env \<Rightarrow> string option \<Rightarrow> world \<Rightarrow> (error + AppointmentEntity option) \<times> world" where
  "findById env ident w0 =
     (let w1 = record_call (RepoFindById ident) w0
      in case poolFault env w1 of
           (Some m, w2) \<Rightarrow> (Inl (DatabaseError m), w2)
         | (None, w2) \<Rightarrow>
             (let rows = filter (\<lambda>r. Some (id_col r) = ident) (appointments w2)
              in if length rows = 0 then (Inr None, w2)
                 else (case mapFirstRow rows of
                         Inl e \<Rightarrow> (Inl e, w2)
                       | Inr a \<Rightarrow> (Inr (Some a), w2))))"

text \<open>
  \<^verbatim>\<open>UPDATE ... WHERE id = $8 RETURNING *\<close>. The statement's time \<^verbatim>\<open>new Date()\<close> is read
  while the values are built, before the query is sent. An \<^verbatim>\<open>undefined\<close> identifier is
  sent as \<^verbatim>\<open>NULL\<close> and matches no row.
\<close>

definition set_columns :: "AppointmentEntity \<Rightarrow> date \<Rightarrow> appointments_row \<Rightarrow> appointments_row" where
  "set_columns appointment now r =
     r\<lparr> start_at := startAt appointment,
        end_at := endAt appointment,
        type_col := type' appointment,
        notes_col := notes appointment,
        calendar_event_id := calendarEventId appointment,
        status_col := status appointment,
        updated_at := Some now \<rparr>"

definition update ::
  "env \<Rightarrow> string option \<Rightarrow> AppointmentEntity \<Rightarrow> world \<Rightarrow> (error + AppointmentEntity) \<times> world" where
  "update env ident appointment w0 =
     (let w1 = record_call (RepoUpdate ident appointment) w0
      in case newDate env w1 of
           (now, w2) \<Rightarrow>
             (case poolFault env w2 of
                (Some m, w3) \<Rightarrow> (Inl (DatabaseError m), w3)
              | (None, w3) \<Rightarrow>
                  (let matched = filter (\<lambda>r. Some (id_col r) = ident) (appointments w3);
                       others = filter (\<lambda>r. Some (id_col r) \<noteq> ident) (appointments w3);
                       changed = map (set_columns appointment now) matched
                   in if list_ex violates_check changed then (Inl (DatabaseError ''23514''), w3)
                      else if list_ex (\<lambda>r. list_ex (same_slot r) others) changed
                        then (Inl (DatabaseError ''23505''), w3)
                      else (mapFirstRow changed,
                            w3\<lparr>appointments :=
                                 map (\<lambda>r. if Some (id_col r) = ident
                                          then set_columns appointment now r else r)
                                     (appointments w3)\<rparr>))))"

definition delete ::
  "env \<Rightarrow> string option \<Rightarrow> world \<Rightarrow> (error + bool) \<times> world" where
  "delete env ident w0 =
     (let w1 = record_call (RepoDelete ident) w0
      in case poolFault env w1 of
           (Some m, w2) \<Rightarrow> (Inl (DatabaseError m), w2)
         | (None, w2) \<Rightarrow>
             (Inr (list_ex (\<lambda>r. Some (id_col r) = ident) (appointments w2)),
              w2\<lparr>appointments := filter (\<lambda>r. Some (id_col r) \<noteq> ident) (appointments w2)\<rparr>))"

text \<open>
  The conflict query. \<^verbatim>\<open>AND id != $3\<close> is appended only when \<^verbatim>\<open>excludeId\<close> is truthy.
  Rows come back in the order of the table.
\<close>

definition conflicts_with ::
  "date \<Rightarrow> date \<Rightarrow> string option \<Rightarrow> appointments_row \<Rightarrow> bool" where
  "conflicts_with startAt' endAt' excludeId r =
     (start_at r < endAt' \<and> end_at r > startAt' \<and> isActive (status_col r)
      \<and> (if truthy excludeId then Some (id_col r) \<noteq> excludeId else True))"

definition getConflictingAppointments ::
  "env \<Rightarrow> date \<Rightarrow> date \<Rightarrow> string option \<Rightarrow> world \<Rightarrow> (error + AppointmentEntity list) \<times> world" where
  "getConflictingAppointments env startAt' endAt' excludeId w0 =
     (let w1 = record_call (RepoGetConflicting startAt' endAt' excludeId) w0
      in case poolFault env w1 of
           (Some m, w2) \<Rightarrow> (Inl (DatabaseError m), w2)
         | (None, w2) \<Rightarrow>
             (Inr (map mapRowToEntity
                     (filter (conflicts_with startAt' endAt' excludeId) (appointments w2))),
              w2))"

text \<open>
  \<^verbatim>\<open>WHERE (email = $1 OR phone_number = $1) AND status IN (...) ORDER BY start_at\<close>:
  a comparison with \<^verbatim>\<open>NULL\<close> is not true, and the order is ascending.
\<close>

definition getActiveAppointmentsByEmailOrPhone ::
  "env \<Rightarrow> string \<Rightarrow> world \<Rightarrow> (error + AppointmentEntity list) \<times> world" where
  "getActiveAppointmentsByEmailOrPhone env emailOrPhone w0 =
     (let w1 = record_call (RepoGetActive emailOrPhone) w0
      in case poolFault env w1 of
           (Some m, w2) \<Rightarrow> (Inl (DatabaseError m), w2)
         | (None, w2) \<Rightarrow>
             (Inr (map mapRowToEntity
                     (sort_key start_at
                        (filter (\<lambda>r. (email_col r = Some emailOrPhone
                                       \<or> phone_number r = Some emailOrPhone)
                                      \<and> isActive (status_col r))
                                (appointments w2)))),
              w2))"

section \<open>CalendarService\<close>

text \<open>
  Truthiness of a value, and \<^verbatim>\<open>a || b\<close>.
\<close>

definition truthyValue :: "jsvalue \<Rightarrow> bool" where
  "truthyValue v =
     (case v of
        JsUndefined \<Rightarrow> False
      | JsNull \<Rightarrow> False
      | JsBoolean b \<Rightarrow> b
      | JsNumber n \<Rightarrow> n \<noteq> 0
      | JsString s \<Rightarrow> s \<noteq> []
      | JsObject j \<Rightarrow> True)"

definition orValue :: "jsvalue \<Rightarrow> jsvalue \<Rightarrow> jsvalue" where
  "orValue a b = (if truthyValue a then a else b)"

text \<open>
  The three \<^verbatim>\<open>catch\<close> blocks end alike: with \<^verbatim>\<open>status = err?.code ||
  err?.response?.status\<close> and \<^verbatim>\<open>details = err?.errors || err?.response?.data ||
  err?.message\<close> they throw a plain \<^verbatim>\<open>Error\<close> whose message is the name of the failed
  operation followed by \<^verbatim>\<open>${status ? ` (status ${status})` : ''}: ${typeof details ===
  'string' ? details : JSON.stringify(details)}\<close>. \<open>failureDetails\<close> is that second part.
\<close>

definition failureDetails :: "env \<Rightarrow> caught \<Rightarrow> string" where
  "failureDetails env err =
     (let status = orValue (err_code err) (err_response_status err);
          details = orValue (orValue (err_errors err) (err_response_data err)) (err_message err)
      in (if truthyValue status
          then '' (status ''
                 @ (case status of JsString s \<Rightarrow> s | _ \<Rightarrow> valueToString env status)
                 @ '')''
          else [])
         @ '': ''
         @ (case details of JsString s \<Rightarrow> s | _ \<Rightarrow> JSON_stringify env details))"

text \<open>What a \<^verbatim>\<open>catch\<close> block reads of \<^verbatim>\<open>new Error(m)\<close>: the message, and nothing else.\<close>

definition newError :: "string \<Rightarrow> caught" where
  "newError m = \<lparr> err_code = JsUndefined, err_response_status = JsUndefined,
                  err_errors = JsUndefined, err_response_data = JsUndefined,
                  err_message = JsString m \<rparr>"

text \<open>
  \<^verbatim>\<open>createCalendarEvent\<close>, \<^verbatim>\<open>updateCalendarEvent\<close> and \<^verbatim>\<open>deleteCalendarEvent\<close> of the class
  \<^verbatim>\<open>CalendarService\<close>. Each builds its request from its arguments and makes one call of
  the Google client; the history records that call with the arguments of the method.
  None touches the table. In \<^verbatim>\<open>createCalendarEvent\<close> the \<^verbatim>\<open>throw\<close> for a response
  without an identifier is inside the \<^verbatim>\<open>try\<close> block, so the \<^verbatim>\<open>catch\<close> block receives
  it and wraps its message like that of a rejection. \<^verbatim>\<open>deleteCalendarEvent\<close> returns
  normally when the rejection carries the status 404. Instants are valid dates here, so
  \<^verbatim>\<open>toISOString\<close> does not throw while the request is built.
\<close>

definition createCalendarEvent ::
  "env \<Rightarrow> AppointmentEntity \<Rightarrow> world \<Rightarrow> (error + string) \<times> world" where
  "createCalendarEvent env appointment w0 =
     (let w1 = record_call (CalendarCreate appointment) w0;
          n = calendarCalls w1;
          w2 = w1\<lparr>calendarCalls := Suc n\<rparr>;
          attempt =
            (case googleCalendar env n of
               Rejected err \<Rightarrow> Inl err
             | Resolved data_id \<Rightarrow>
                 (case orNull data_id of
                    None \<Rightarrow> Inl (newError ''Calendar event creation failed: no event ID returned'')
                  | Some eventId \<Rightarrow> Inr eventId))
      in case attempt of
           Inl err \<Rightarrow>
             (Inl (Error (''Calendar event creation failed'' @ failureDetails env err)), w2)
         | Inr eventId \<Rightarrow> (Inr eventId, w2))"

definition updateCalendarEvent ::
  "env \<Rightarrow> string option \<Rightarrow> AppointmentEntity \<Rightarrow> world \<Rightarrow> (error + unit) \<times> world" where
  "updateCalendarEvent env eventId appointment w0 =
     (let w1 = record_call (CalendarUpdate eventId appointment) w0;
          n = calendarCalls w1;
          w2 = w1\<lparr>calendarCalls := Suc n\<rparr>
      in case googleCalendar env n of
           Rejected err \<Rightarrow>
             (Inl (Error (''Calendar event update failed'' @ failureDetails env err)), w2)
         | Resolved data_id \<Rightarrow> (Inr (), w2))"

definition deleteCalendarEvent ::
  "env \<Rightarrow> string option \<Rightarrow> world \<Rightarrow> (error + unit) \<times> world" where
  "deleteCalendarEvent env eventId w0 =
     (let w1 = record_call (CalendarDelete eventId) w0;
          n = calendarCalls w1;
          w2 = w1\<lparr>calendarCalls := Suc n\<rparr>
      in case googleCalendar env n of
           Rejected err \<Rightarrow>
             if err_code err = JsNumber 404 \<or> err_response_status err = JsNumber 404
             then (Inr (), w2)
             else (Inl (Error (''Calendar event deletion failed'' @ failureDetails env err)), w2)
         | Resolved data_id \<Rightarrow> (Inr (), w2))"

section \<open>AppointmentEntity\<close>

text \<open>
  The constructor on a \<^verbatim>\<open>ScheduleRequest\<close> (an object without the keys \<^verbatim>\<open>id\<close>,
  \<^verbatim>\<open>status\<close>, \<^verbatim>\<open>createdAt\<close>: the second branch), and \<^verbatim>\<open>setCalendarEventId\<close>. On an
  \<^verbatim>\<open>Appointment\<close> the constructor copies every field, which is the identity here.
\<close>

definition newAppointmentEntity ::
  "env \<Rightarrow> ScheduleRequest \<Rightarrow> world \<Rightarrow> AppointmentEntity \<times> world" where
  "newAppointmentEntity env data w =
     (case newDate env w of
        (now, w') \<Rightarrow>
          (\<lparr> firstName = firstName data,
             lastName = lastName data,
             email = email data,
             phoneNumber = phoneNumber data,
             startAt = startAt data,
             endAt = endAt data,
             type' = type' data,
             notes = notes data,
             reason = reason data,
             id' = None,
             status = SCHEDULED,
             calendarEventId = None,
             createdAt = Some now,
             updatedAt = None \<rparr>, w'))"

definition setCalendarEventId ::
  "env \<Rightarrow> string \<Rightarrow> AppointmentEntity \<Rightarrow> world \<Rightarrow> AppointmentEntity \<times> world" where
  "setCalendarEventId env eventId appointment w =
     (case newDate env w of
        (now, w') \<Rightarrow> (appointment\<lparr>calendarEventId := Some eventId, updatedAt := Some now\<rparr>, w'))"

section \<open>AppointmentService\<close>

text \<open>
  The callback of \<^verbatim>\<open>conflictingAppointments.find\<close>: \<^verbatim>\<open>(c.email && apt.email === c.email)
  || (c.phoneNumber && apt.phoneNumber === c.phoneNumber)\<close>, where \<open>c\<close> is the request in
  \<^verbatim>\<open>createAppointment\<close> and the stored appointment in \<^verbatim>\<open>editAppointment\<close>.
\<close>

definition samePerson :: "string option \<Rightarrow> string option \<Rightarrow> AppointmentEntity \<Rightarrow> bool" where
  "samePerson cEmail cPhone apt =
     ((truthy cEmail \<and> email apt = cEmail) \<or> (truthy cPhone \<and> phoneNumber apt = cPhone))"

definition createSamePersonMessage :: "env \<Rightarrow> date \<Rightarrow> date \<Rightarrow> string" where
  "createSamePersonMessage env s e =
     ''You already have an appointment scheduled during this time slot from ''
       @ toISOString env s @ '' to '' @ toISOString env e"

definition createBookedMessage :: "env \<Rightarrow> date \<Rightarrow> date \<Rightarrow> string" where
  "createBookedMessage env s e =
     ''Time slot from '' @ toISOString env s @ '' to '' @ toISOString env e
       @ '' is already booked''"

definition editSamePersonMessage :: "env \<Rightarrow> date \<Rightarrow> date \<Rightarrow> string" where
  "editSamePersonMessage env s e =
     ''You already have another appointment scheduled during this time slot from ''
       @ toISOString env s @ '' to '' @ toISOString env e"

definition editBookedMessage :: string where
  "editBookedMessage = ''Time slot conflict: The new time slot is already booked.''"

text \<open>
  The \<^verbatim>\<open>catch (calendarError)\<close> block of \<^verbatim>\<open>createAppointment\<close>: the delete is attempted,
  its own failure is only logged, and a plain \<^verbatim>\<open>Error\<close> is thrown.
\<close>

definition rollbackCreate ::
  "env \<Rightarrow> AppointmentEntity \<Rightarrow> error \<Rightarrow> world \<Rightarrow> (error + AppointmentEntity) \<times> world" where
  "rollbackCreate env createdAppointment calendarError w =
     (case delete env (id' createdAppointment) w of
        (_, w') \<Rightarrow>
          (Inl (Error (''Failed to create calendar event: ''
                  @ (if instanceofError calendarError then message calendarError
                     else ''Unknown error''))), w'))"

definition createAppointment ::
  "env \<Rightarrow> ScheduleRequest \<Rightarrow> world \<Rightarrow> (error + AppointmentEntity) \<times> world" where
  "createAppointment env data w =
     (case getConflictingAppointments env (startAt data) (endAt data) None w of
        (Inl e, w1) \<Rightarrow> (Inl e, w1)
      | (Inr conflictingAppointments, w1) \<Rightarrow>
          if length conflictingAppointments > 0 then
            (case find (samePerson (email data) (phoneNumber data)) conflictingAppointments of
               Some samePersonConflict \<Rightarrow>
                 (Inl (TimeSlotUnavailableError
                         (createSamePersonMessage env (startAt data) (endAt data))), w1)
             | None \<Rightarrow>
                 (Inl (TimeSlotUnavailableError
                         (createBookedMessage env (startAt data) (endAt data))), w1))
          else
            (case newAppointmentEntity env data w1 of
               (appointment, w2) \<Rightarrow>
                 (case create env appointment w2 of
                    (Inl e, w3) \<Rightarrow> (Inl e, w3)
                  | (Inr createdAppointment, w3) \<Rightarrow>
                      (case createCalendarEvent env createdAppointment w3 of
                         (Inl calendarError, w4) \<Rightarrow>
                           rollbackCreate env createdAppointment calendarError w4
                       | (Inr eventId, w4) \<Rightarrow>
                           (case setCalendarEventId env eventId createdAppointment w4 of
                              (withEvent, w5) \<Rightarrow>
                                (case update env (id' withEvent) withEvent w5 of
                                   (Inl calendarError, w6) \<Rightarrow>
                                     rollbackCreate env withEvent calendarError w6
                                 | (Inr updatedAppointment, w6) \<Rightarrow>
                                     (Inr updatedAppointment, w6)))))))"

text \<open>
  \<^verbatim>\<open>{...appointment, ...allowedUpdates, id, createdAt, updatedAt: new Date()}\<close>, where
  \<^verbatim>\<open>allowedUpdates\<close> takes \<^verbatim>\<open>startAt\<close>, \<^verbatim>\<open>endAt\<close> and \<^verbatim>\<open>type\<close> from the payload when
  they are there.
\<close>

definition allowedUpdates ::
  "ScheduleRequestPartial \<Rightarrow> date \<Rightarrow> AppointmentEntity \<Rightarrow> AppointmentEntity" where
  "allowedUpdates data now appointment =
     appointment\<lparr> startAt := (case p_startAt data of Some s \<Rightarrow> s | None \<Rightarrow> startAt appointment),
                  endAt := (case p_endAt data of Some e \<Rightarrow> e | None \<Rightarrow> endAt appointment),
                  type' := (case p_type data of Some t \<Rightarrow> t | None \<Rightarrow> type' appointment),
                  updatedAt := Some now \<rparr>"

text \<open>The part of \<^verbatim>\<open>editAppointment\<close> after the conflict check.\<close>

definition applyEdit ::
  "env \<Rightarrow> string \<Rightarrow> ScheduleRequestPartial \<Rightarrow> AppointmentEntity \<Rightarrow> world
     \<Rightarrow> (error + AppointmentEntity) \<times> world" where
  "applyEdit env appointmentId data appointment w =
     (case newDate env w of
        (now, w1) \<Rightarrow>
          (case update env (Some appointmentId) (allowedUpdates data now appointment) w1 of
             (Inl e, w2) \<Rightarrow> (Inl e, w2)
           | (Inr dbResult, w2) \<Rightarrow>
               if truthy (calendarEventId appointment) then
                 (case updateCalendarEvent env (calendarEventId appointment) dbResult w2 of
                    (_, w3) \<Rightarrow> (Inr dbResult, w3))
               else (Inr dbResult, w2)))"

definition editAppointment ::
  "env \<Rightarrow> string \<Rightarrow> ScheduleRequestPartial \<Rightarrow> world \<Rightarrow> (error + AppointmentEntity) \<times> world" where
  "editAppointment env appointmentId data w =
     (case findById env (Some appointmentId) w of
        (Inl e, w1) \<Rightarrow> (Inl e, w1)
      | (Inr None, w1) \<Rightarrow>
          (Inl (NotFoundError (''Appointment with ID '' @ appointmentId @ '' not found'')), w1)
      | (Inr (Some appointment), w1) \<Rightarrow>
          (case (p_startAt data, p_endAt data) of
             (Some newStart, Some newEnd) \<Rightarrow>
               (case getConflictingAppointments env newStart newEnd (Some appointmentId) w1 of
                  (Inl e, w2) \<Rightarrow> (Inl e, w2)
                | (Inr conflictingAppointments, w2) \<Rightarrow>
                    if length conflictingAppointments > 0 then
                      (case find (samePerson (email appointment) (phoneNumber appointment))
                                 conflictingAppointments of
                         Some samePersonConflict \<Rightarrow>
                           (Inl (TimeSlotUnavailableError
                                   (editSamePersonMessage env newStart newEnd)), w2)
                       | None \<Rightarrow> (Inl (TimeSlotUnavailableError editBookedMessage), w2))
                    else applyEdit env appointmentId data appointment w2)
           | _ \<Rightarrow> applyEdit env appointmentId data appointment w1))"

text \<open>
  \<^verbatim>\<open>hoursUntilAppointment\<close> is a quotient of doubles in the source. Both differences of
  instants and the divisor are integers below \<open>2^53\<close>, the quotient is rounded to the
  nearest double and \<open>2\<close> is a double, so the comparison with \<open>2\<close> has the outcome it
  has on the exact quotient, which is what is computed here.
\<close>

definition validateAppointmentCanBeCancelled ::
  "env \<Rightarrow> AppointmentEntity \<Rightarrow> world \<Rightarrow> (error + unit) \<times> world" where
  "validateAppointmentCanBeCancelled env appointment w =
     (if status appointment = CANCELLED then
        (Inl (AppointmentCancellationError ''Appointment is already cancelled''), w)
      else if status appointment = COMPLETED then
        (Inl (AppointmentCancellationError ''Cannot cancel completed appointments''), w)
      else
        (case newDate env w of
           (now, w1) \<Rightarrow>
             let hoursUntilAppointment =
                   (rat_of_int (startAt appointment - now)) / (1000 * 60 * 60)
             in if hoursUntilAppointment < 2 then
                  (Inl (AppointmentCancellationError
                          ''Cannot cancel appointments less than 2 hours before start time''), w1)
                else (Inr (), w1)))"

definition cancelAppointment ::
  "env \<Rightarrow> string \<Rightarrow> world \<Rightarrow> (error + bool) \<times> world" where
  "cancelAppointment env appointmentId w =
     (case findById env (Some appointmentId) w of
        (Inl e, w1) \<Rightarrow> (Inl e, w1)
      | (Inr None, w1) \<Rightarrow>
          (Inl (NotFoundError (''Appointment with ID '' @ appointmentId @ '' not found'')), w1)
      | (Inr (Some appointment), w1) \<Rightarrow>
          (case validateAppointmentCanBeCancelled env appointment w1 of
             (Inl e, w2) \<Rightarrow> (Inl e, w2)
           | (Inr _, w2) \<Rightarrow>
               (case newDate env w2 of
                  (now, w3) \<Rightarrow>
                    (let cancelled = appointment\<lparr>status := CANCELLED, updatedAt := Some now\<rparr>
                     in case update env (Some appointmentId) cancelled w3 of
                          (Inl e, w4) \<Rightarrow> (Inl e, w4)
                        | (Inr _, w4) \<Rightarrow>
                            if truthy (calendarEventId cancelled) then
                              (case deleteCalendarEvent env (calendarEventId cancelled) w4 of
                                 (_, w5) \<Rightarrow> (Inr True, w5))
                            else (Inr True, w4)))))"

text \<open>The events a call appended to the history.\<close>

definition newEvents :: "world \<Rightarrow> world \<Rightarrow> event list" where
  "newEvents w w' = drop (length (trace w)) (trace w')"

text \<open>
  The invariant the schema keeps on the table: the primary key, the unique slot, the two
  checks. Identifiers are uuids, never the empty string.
\<close>

definition wf_table :: "appointments_row list \<Rightarrow> bool" where
  "wf_table rows =
     (distinct (map id_col rows)
      \<and> distinct (map (\<lambda>r. (start_at r, end_at r)) rows)
      \<and> list_all (\<lambda>r. start_at r < end_at r
                      \<and> (email_col r \<noteq> None \<or> phone_number r \<noteq> None)
                      \<and> id_col r \<noteq> []) rows)"

text \<open>The calls that write to the table.\<close>

fun isWrite :: "event \<Rightarrow> bool" where
  "isWrite (RepoCreate a) = True"
| "isWrite (RepoUpdate i a) = True"
| "isWrite (RepoDelete i) = True"
| "isWrite ev = False"

section \<open>Concrete inputs\<close>

text \<open>
  Identifiers, an environment in which nothing fails, and a table of three appointments:
  10:00 to 11:00 (scheduled), 11:00 to 12:00 (confirmed), 12:00 to 13:00 (cancelled), the
  instants being milliseconds. The environment prints the four instants that the
  messages below mention, and the two status codes. No row has the identifier \<open>id_absent\<close>; \<open>id_new\<close> is
  the one the environment draws for an insert.
\<close>

definition id_a :: string where "id_a = ''aaaaaaaa-aaaa-4aaa-8aaa-aaaaaaaaaaa1''"

definition id_b :: string where "id_b = ''bbbbbbbb-bbbb-4bbb-8bbb-bbbbbbbbbbb2''"

definition id_c :: string where "id_c = ''cccccccc-cccc-4ccc-8ccc-ccccccccccc3''"

definition id_d :: string where "id_d = ''dddddddd-dddd-4ddd-8ddd-ddddddddddd4''"

definition id_absent :: string where "id_absent = ''eeeeeeee-eeee-4eee-8eee-eeeeeeeeeee5''"

definition id_new :: string where "id_new = ''ffffffff-ffff-4fff-8fff-fffffffffff6''"

definition env0 :: env where
  "env0 = \<lparr> dbFault = (\<lambda>n. None), genId = (\<lambda>n. id_new),
            googleCalendar = (\<lambda>n. Resolved (Some ''evt-new'')), clock = (\<lambda>n. 1000),
            toISOString = (\<lambda>d. if d = 37800000 then ''1970-01-01T10:30:00.000Z''
                               else if d = 41400000 then ''1970-01-01T11:30:00.000Z''
                               else if d = 43200000 then ''1970-01-01T12:00:00.000Z''
                               else if d = 46800000 then ''1970-01-01T13:00:00.000Z''
                               else ''1970-01-01T00:00:00.000Z''),
            valueToString = (\<lambda>v. if v = JsNumber 503 then ''503''
                                 else if v = JsNumber 404 then ''404''
                                 else ''[object Object]''),
            JSON_stringify = (\<lambda>v. ''{}'') \<rparr>"

definition row_a :: appointments_row where
  "row_a = \<lparr> id_col = id_a, first_name = ''John'', last_name = ''Doe'',
             email_col = Some ''john@example.com'', phone_number = Some ''+1234567890'',
             start_at = 36000000, end_at = 39600000, type_col = CONSULTATION,
             status_col = SCHEDULED, notes_col = [], reason_col = None,
             calendar_event_id = Some ''cal-1'', created_at = 0, updated_at = None \<rparr>"

definition row_b :: appointments_row where
  "row_b = \<lparr> id_col = id_b, first_name = ''Jane'', last_name = ''Smith'',
             email_col = Some ''jane@example.com'', phone_number = None,
             start_at = 39600000, end_at = 43200000, type_col = FOLLOW_UP,
             status_col = CONFIRMED, notes_col = [], reason_col = None,
             calendar_event_id = None, created_at = 0, updated_at = None \<rparr>"

definition row_c :: appointments_row where
  "row_c = \<lparr> id_col = id_c, first_name = ''Jack'', last_name = ''Taylor'',
             email_col = Some ''jack@example.com'', phone_number = None,
             start_at = 43200000, end_at = 46800000, type_col = CHECK_UP,
             status_col = CANCELLED, notes_col = [], reason_col = None,
             calendar_event_id = None, created_at = 0, updated_at = Some 500 \<rparr>"

definition world0 :: world where
  "world0 = \<lparr> appointments = [row_a, row_b, row_c], queries = 0, calendarCalls = 0,
              clockReads = 0, trace = [] \<rparr>"

text \<open>
  Three requests: two for 10:30 to 11:30, which overlaps the first two appointments (one
  by the holder of the first appointment, one by somebody else), and one for 13:00 to
  14:00, which is free. \<open>created_free\<close> is the record the store returns for the last
  one. \<open>api_error\<close> is what is read of a rejection of the Google client that carries
  the status 503 and a message. In \<open>env_sync_fail\<close> the client rejects every call with
  it and the third query (the compensating delete) is rejected; in \<open>env_no_id\<close> the
  client resolves every call to a response without an identifier.
\<close>

definition api_error :: caught where
  "api_error = \<lparr> err_code = JsNumber 503, err_response_status = JsUndefined,
                   err_errors = JsUndefined, err_response_data = JsUndefined,
                   err_message = JsString ''Calendar API error'' \<rparr>"

definition req_john :: ScheduleRequest where
  "req_john = \<lparr> firstName = ''John'', lastName = ''Doe'', email = Some ''john@example.com'',
                phoneNumber = None, startAt = 37800000, endAt = 41400000,
                type' = CONSULTATION, notes = [], reason = None, callId = None \<rparr>"

definition req_mary :: ScheduleRequest where
  "req_mary = \<lparr> firstName = ''Mary'', lastName = ''Major'', email = Some ''mary@example.com'',
                phoneNumber = Some ''+1999'', startAt = 37800000, endAt = 41400000,
                type' = CONSULTATION, notes = [], reason = None, callId = None \<rparr>"

definition req_free :: ScheduleRequest where
  "req_free = \<lparr> firstName = ''Mary'', lastName = ''Major'', email = Some ''mary@example.com'',
                phoneNumber = Some ''+1999'', startAt = 46800000, endAt = 50400000,
                type' = CONSULTATION, notes = [], reason = None, callId = None \<rparr>"

definition created_free :: AppointmentEntity where
  "created_free = \<lparr> firstName = ''Mary'', lastName = ''Major'', email = Some ''mary@example.com'',
                phoneNumber = Some ''+1999'', startAt = 46800000, endAt = 50400000,
                type' = CONSULTATION, notes = [], reason = None, id' = Some id_new,
                status = SCHEDULED, calendarEventId = None, createdAt = Some 1000,
                updatedAt = None \<rparr>"

definition env_sync_fail :: env where
  "env_sync_fail = env0\<lparr> googleCalendar := (\<lambda>n. Rejected api_error),
                          dbFault := (\<lambda>n. if n = 2 then Some ''connection lost'' else None) \<rparr>"

definition env_no_id :: env where
  "env_no_id = env0\<lparr> googleCalendar := (\<lambda>n. Resolved None) \<rparr>"

text \<open>
  A reschedule payload for the first appointment that also posts a name, an email and
  notes; its interval, 10:30 to 11:30, overlaps the second appointment.
\<close>

definition payload_clash :: ScheduleRequestPartial where
  "payload_clash = \<lparr> p_firstName = Some ''Eve'', p_lastName = None,
       p_email = Some ''eve@example.com'', p_phoneNumber = None,
       p_startAt = Some 37800000, p_endAt = Some 41400000, p_type = Some EMERGENCY,
       p_notes = Some [(''injected'', ''true'')], p_reason = None, p_callId = None \<rparr>"

text \<open>
  Two clocks for the first appointment, which starts at 10:00: one reads 8:00, exactly
  two hours before, the other 8:01, one hour and 59 minutes before.
\<close>

definition env_2h :: env where
  "env_2h = env0\<lparr> clock := (\<lambda>n. 28800000) \<rparr>"

definition env_1h59 :: env where
  "env_1h59 = env0\<lparr> clock := (\<lambda>n. 28860000) \<rparr>"

text \<open>
  A reschedule payload for the first appointment to the free slot 13:00 to 14:00, with a
  new type, that also posts a name, an email and notes.
\<close>

definition payload_free :: ScheduleRequestPartial where
  "payload_free = \<lparr> p_firstName = Some ''Eve'', p_lastName = None,
       p_email = Some ''eve@example.com'', p_phoneNumber = None,
       p_startAt = Some 46800000, p_endAt = Some 50400000, p_type = Some EMERGENCY,
       p_notes = Some [(''injected'', ''true'')], p_reason = None, p_callId = None \<rparr>"

text \<open>
  The record the store holds after that reschedule (the clock of \<open>env0\<close> always reads
  1000), an environment in which the Google client rejects every call with
  \<open>api_error\<close>, what is read of the rejection of a call for an event that is no longer
  there, and an environment in which the client rejects every call in that way.
\<close>

definition moved_a :: AppointmentEntity where
  "moved_a = \<lparr> firstName = ''John'', lastName = ''Doe'', email = Some ''john@example.com'',
       phoneNumber = Some ''+1234567890'', startAt = 46800000, endAt = 50400000,
       type' = EMERGENCY, notes = [], reason = None, id' = Some id_a, status = SCHEDULED,
       calendarEventId = Some ''cal-1'', createdAt = Some 0, updatedAt = Some 1000 \<rparr>"

definition env_cal_fail :: env where
  "env_cal_fail = env0\<lparr> googleCalendar := (\<lambda>n. Rejected api_error) \<rparr>"

definition not_found_error :: caught where
  "not_found_error = \<lparr> err_code = JsNumber 404, err_response_status = JsNumber 404,
                         err_errors = JsUndefined, err_response_data = JsUndefined,
                         err_message = JsString ''Not Found'' \<rparr>"

definition env_gone :: env where
  "env_gone = env0\<lparr> googleCalendar := (\<lambda>n. Rejected not_found_error) \<rparr>"

text \<open>
  A request, and a reschedule payload for the first appointment, for 12:00 to 13:00: the
  slot of the cancelled appointment, which the conflict query does not see and the
  unique constraint of the table does.
\<close>

definition req_reuse :: ScheduleRequest where
  "req_reuse = \<lparr> firstName = ''Mary'', lastName = ''Major'', email = Some ''mary@example.com'',
                phoneNumber = Some ''+1999'', startAt = 43200000, endAt = 46800000,
                type' = CONSULTATION, notes = [], reason = None, callId = None \<rparr>"

definition payload_reuse :: ScheduleRequestPartial where
  "payload_reuse = \<lparr> p_firstName = None, p_lastName = None, p_email = None,
       p_phoneNumber = None, p_startAt = Some 43200000, p_endAt = Some 46800000,
       p_type = None, p_notes = None, p_reason = None, p_callId = None \<rparr>"

text \<open>
  A second active appointment of the holder of the first one, from 14:00 to 15:00, and a
  table in which it is stored before the first.
\<close>

definition row_d :: appointments_row where
  "row_d = \<lparr> id_col = id_d, first_name = ''John'', last_name = ''Doe'',
             email_col = Some ''john@example.com'', phone_number = Some ''+1234567890'',
             start_at = 50400000, end_at = 54000000, type_col = FOLLOW_UP,
             status_col = CONFIRMED, notes_col = [], reason_col = None,
             calendar_event_id = None, created_at = 0, updated_at = None \<rparr>"

definition world_two :: world where
  "world_two = \<lparr> appointments = [row_d, row_a, row_c], queries = 0, calendarCalls = 0,
                 clockReads = 0, trace = [] \<rparr>"

section \<open>Lemmas on the repository\<close>

lemma getConflicting_result:
  "getConflictingAppointments env s e x w = (r, w') \<Longrightarrow>
     appointments w' = appointments w \<and> trace w' = trace w @ [RepoGetConflicting s e x]
     \<and> queries w' = Suc (queries w) \<and> calendarCalls w' = calendarCalls w \<and> clockReads w' = clockReads w
     \<and> r = (case dbFault env (queries w) of Some m \<Rightarrow> Inl (DatabaseError m)
            | None \<Rightarrow> Inr (map mapRowToEntity (filter (conflicts_with s e x) (appointments w))))"
  by (auto simp: getConflictingAppointments_def poolFault_def record_call_def Let_def split: option.splits)

lemma findById_result:
  "findById env i w = (r, w') \<Longrightarrow>
     appointments w' = appointments w \<and> trace w' = trace w @ [RepoFindById i]
     \<and> queries w' = Suc (queries w) \<and> calendarCalls w' = calendarCalls w \<and> clockReads w' = clockReads w"
  by (auto simp: findById_def poolFault_def record_call_def Let_def mapFirstRow_def split: option.splits list.splits if_splits)

lemma findById_Inl:
  "findById env i w = (Inl e, w') \<Longrightarrow> \<exists>m. e = DatabaseError m"
  by (auto simp: findById_def poolFault_def record_call_def Let_def mapFirstRow_def split: option.splits list.splits if_splits)

lemma create_result:
  "create env a w = (r, w') \<Longrightarrow>
     trace w' = trace w @ [RepoCreate a] \<and> queries w' = Suc (queries w)
     \<and> calendarCalls w' = calendarCalls w"
  by (auto simp: create_def poolFault_def record_call_def newDate_def Let_def mapFirstRow_def split: option.splits if_splits)

lemma create_Inl:
  "create env a w = (Inl e, w') \<Longrightarrow> appointments w' = appointments w \<and> (\<exists>m. e = DatabaseError m)"
  by (auto simp: create_def poolFault_def record_call_def newDate_def Let_def mapFirstRow_def split: option.splits if_splits)

lemma create_Inr:
  "create env a w = (Inr c, w') \<Longrightarrow>
     \<exists>row. appointments w' = appointments w @ [row] \<and> c = mapRowToEntity row
        \<and> id_col row = genId env (queries w) \<and> status_col row = SCHEDULED"
  by (auto simp: create_def poolFault_def record_call_def newDate_def Let_def mapFirstRow_def split: option.splits if_splits)

lemma update_result:
  "update env i a w = (r, w') \<Longrightarrow>
     trace w' = trace w @ [RepoUpdate i a] \<and> queries w' = Suc (queries w)
     \<and> calendarCalls w' = calendarCalls w \<and> clockReads w' = Suc (clockReads w)"
  by (auto simp: update_def poolFault_def record_call_def newDate_def Let_def mapFirstRow_def split: option.splits if_splits list.splits)

lemma map_if_filter_empty:
  "filter P xs = [] \<Longrightarrow> map (\<lambda>r. if P r then f r else r) xs = xs"
  by (induction xs) (auto split: if_splits)

lemma update_Inl:
  "update env i a w = (Inl e, w') \<Longrightarrow>
     appointments w' = appointments w \<and> ((\<exists>m. e = DatabaseError m) \<or> (\<exists>m. e = TypeError m))"
  by (auto simp: update_def poolFault_def record_call_def newDate_def Let_def mapFirstRow_def
        map_if_filter_empty split: option.splits if_splits list.splits)

lemma delete_result:
  "delete env i w = (r, w') \<Longrightarrow>
     trace w' = trace w @ [RepoDelete i] \<and> queries w' = Suc (queries w)
     \<and> calendarCalls w' = calendarCalls w \<and> clockReads w' = clockReads w"
  by (auto simp: delete_def poolFault_def record_call_def Let_def split: option.splits)

lemma failureDetails_newError: "failureDetails env (newError m) = '': '' @ m"
  by (simp add: failureDetails_def newError_def orValue_def truthyValue_def)

lemma createCalendarEvent_result:
  "createCalendarEvent env a w = (r, w') \<Longrightarrow>
     appointments w' = appointments w \<and> trace w' = trace w @ [CalendarCreate a]
     \<and> queries w' = queries w \<and> calendarCalls w' = Suc (calendarCalls w) \<and> clockReads w' = clockReads w
     \<and> r = (case googleCalendar env (calendarCalls w) of
              Rejected err \<Rightarrow> Inl (Error (''Calendar event creation failed'' @ failureDetails env err))
            | Resolved i \<Rightarrow>
                if truthy i then Inr (the i)
                else Inl (Error ''Calendar event creation failed: Calendar event creation failed: no event ID returned''))"
  by (auto simp: createCalendarEvent_def record_call_def Let_def orNull_def failureDetails_newError
        truthy_def split: client_answer.splits option.splits if_splits)

lemma updateCalendarEvent_result:
  "updateCalendarEvent env ev a w = (r, w') \<Longrightarrow>
     appointments w' = appointments w \<and> trace w' = trace w @ [CalendarUpdate ev a]
     \<and> queries w' = queries w \<and> calendarCalls w' = Suc (calendarCalls w) \<and> clockReads w' = clockReads w
     \<and> r = (case googleCalendar env (calendarCalls w) of
              Rejected err \<Rightarrow> Inl (Error (''Calendar event update failed'' @ failureDetails env err))
            | Resolved i \<Rightarrow> Inr ())"
  by (auto simp: updateCalendarEvent_def record_call_def Let_def split: client_answer.splits)

lemma deleteCalendarEvent_result:
  "deleteCalendarEvent env ev w = (r, w') \<Longrightarrow>
     appointments w' = appointments w \<and> trace w' = trace w @ [CalendarDelete ev]
     \<and> queries w' = queries w \<and> calendarCalls w' = Suc (calendarCalls w) \<and> clockReads w' = clockReads w
     \<and> r = (case googleCalendar env (calendarCalls w) of
              Rejected err \<Rightarrow>
                if err_code err = JsNumber 404 \<or> err_response_status err = JsNumber 404 then Inr ()
                else Inl (Error (''Calendar event deletion failed'' @ failureDetails env err))
            | Resolved i \<Rightarrow> Inr ())"
  by (auto simp: deleteCalendarEvent_def record_call_def Let_def split: client_answer.splits)

section \<open>Lemmas on the service\<close>

lemma newEvents_append: "trace w' = trace w @ xs \<Longrightarrow> newEvents w w' = xs"
  by (simp add: newEvents_def)

lemma newAppointmentEntity_result:
  "newAppointmentEntity env data w = (a, w') \<Longrightarrow>
     appointments w' = appointments w \<and> trace w' = trace w \<and> queries w' = queries w
     \<and> calendarCalls w' = calendarCalls w \<and> clockReads w' = Suc (clockReads w)"
  by (auto simp: newAppointmentEntity_def newDate_def)

lemma setCalendarEventId_result:
  "setCalendarEventId env ev a w = (a', w') \<Longrightarrow>
     appointments w' = appointments w \<and> trace w' = trace w \<and> queries w' = queries w
     \<and> calendarCalls w' = calendarCalls w \<and> id' a' = id' a"
  by (auto simp: setCalendarEventId_def newDate_def)

lemma createAppointment_outcome:
  assumes run: "createAppointment env data w = (r, w')"
  shows "(\<exists>m. r = Inl (DatabaseError m) \<and> appointments w' = appointments w
           \<and> newEvents w w' = [RepoGetConflicting (startAt data) (endAt data) None])
       \<or> (\<exists>m. r = Inl (TimeSlotUnavailableError m) \<and> appointments w' = appointments w
           \<and> newEvents w w' = [RepoGetConflicting (startAt data) (endAt data) None])
       \<or> (\<exists>m a. r = Inl (DatabaseError m) \<and> appointments w' = appointments w
           \<and> newEvents w w' = [RepoGetConflicting (startAt data) (endAt data) None, RepoCreate a])
       \<or> (\<exists>a c m.
              (case googleCalendar env (calendarCalls w) of
                 Rejected err \<Rightarrow> m = ''Calendar event creation failed'' @ failureDetails env err
               | Resolved i \<Rightarrow>
                   \<not> truthy i
                   \<and> m = ''Calendar event creation failed: Calendar event creation failed: no event ID returned'')
           \<and> id' c = Some (genId env (Suc (queries w)))
           \<and> r = Inl (Error (''Failed to create calendar event: '' @ m))
           \<and> newEvents w w' = [RepoGetConflicting (startAt data) (endAt data) None, RepoCreate a,
                  CalendarCreate c, RepoDelete (id' c)])
       \<or> (\<exists>a c c' e i. googleCalendar env (calendarCalls w) = Resolved i \<and> truthy i
           \<and> id' c = Some (genId env (Suc (queries w)))
           \<and> r = Inl (Error (''Failed to create calendar event: '' @ message e))
           \<and> newEvents w w' = [RepoGetConflicting (startAt data) (endAt data) None, RepoCreate a,
                  CalendarCreate c, RepoUpdate (id' c) c', RepoDelete (id' c)])
       \<or> (\<exists>a c c' u i. googleCalendar env (calendarCalls w) = Resolved i \<and> truthy i
           \<and> id' c = Some (genId env (Suc (queries w)))
           \<and> r = Inr u
           \<and> newEvents w w' = [RepoGetConflicting (startAt data) (endAt data) None, RepoCreate a,
                  CalendarCreate c, RepoUpdate (id' c) c'])"
proof -
  obtain r1 w1 where g: "getConflictingAppointments env (startAt data) (endAt data) None w = (r1, w1)"
    by fastforce
  note G = getConflicting_result [OF g]
  show ?thesis
  proof (cases r1)
    case (Inl e)
    with run g have "r = Inl e" "w' = w1" by (simp_all add: createAppointment_def)
    with G Inl show ?thesis by (auto simp: newEvents_append split: option.splits)
  next
    case (Inr cs)
    show ?thesis
    proof (cases "cs = []")
      case False
      with run g Inr have "w' = w1" "\<exists>m. r = Inl (TimeSlotUnavailableError m)"
        by (auto simp: createAppointment_def split: option.splits)
      with G show ?thesis by (auto simp: newEvents_append)
    next
      case True
      obtain a w2 where n: "newAppointmentEntity env data w1 = (a, w2)" by fastforce
      note N = newAppointmentEntity_result [OF n]
      obtain r3 w3 where c: "create env a w2 = (r3, w3)" by fastforce
      note C = create_result [OF c]
      show ?thesis
      proof (cases r3)
        case (Inl e)
        with run g Inr True n c have "r = Inl e" "w' = w3" by (simp_all add: createAppointment_def)
        with create_Inl [of env a w2 e w3] c Inl G N C show ?thesis
          by (auto simp: newEvents_append)
      next
        case (Inr created)
        obtain r4 w4 where k: "createCalendarEvent env created w3 = (r4, w4)" by fastforce
        note K = createCalendarEvent_result [OF k]
        from create_Inr [of env a w2 created w3] c Inr G N
        have ident: "id' created = Some (genId env (Suc (queries w)))"
          by (auto simp: mapRowToEntity_def)
        show ?thesis
        proof (cases r4)
          case (Inl thrown)
          obtain r5 w5 where d: "delete env (id' created) w4 = (r5, w5)" by fastforce
          note D = delete_result [OF d]
          from K Inl G N C obtain m where thrown: "thrown = Error m"
            and m: "(case googleCalendar env (calendarCalls w) of
                 Rejected err \<Rightarrow> m = ''Calendar event creation failed'' @ failureDetails env err
               | Resolved i \<Rightarrow>
                   \<not> truthy i
                   \<and> m = ''Calendar event creation failed: Calendar event creation failed: no event ID returned'')"
            by (auto split: client_answer.splits if_splits)
          from run g \<open>r1 = Inr cs\<close> True n c Inr k Inl d thrown
          have "r = Inl (Error (''Failed to create calendar event: '' @ m))" "w' = w5"
            by (simp_all add: createAppointment_def rollbackCreate_def)
          moreover from G N C K D
          have "newEvents w w' = [RepoGetConflicting (startAt data) (endAt data) None, RepoCreate a,
                  CalendarCreate created, RepoDelete (id' created)]" if "w' = w5"
            using that by (simp add: newEvents_append)
          ultimately show ?thesis using m ident
            by blast
        next
          case (Inr eventId)
          obtain withEvent w5 where s: "setCalendarEventId env eventId created w4 = (withEvent, w5)"
            by fastforce
          note S = setCalendarEventId_result [OF s]
          obtain r6 w6 where u: "update env (id' withEvent) withEvent w5 = (r6, w6)" by fastforce
          note U = update_result [OF u]
          from K Inr G N C obtain i where nofault: "googleCalendar env (calendarCalls w) = Resolved i" "truthy i"
            by (auto split: client_answer.splits if_splits)
          show ?thesis
          proof (cases r6)
            case (Inl e)
            obtain r7 w7 where d: "delete env (id' withEvent) w6 = (r7, w7)" by fastforce
            note D = delete_result [OF d]
            from update_Inl [of env "id' withEvent" withEvent w5 e w6] u Inl
            have "instanceofError e" by auto
            with run g \<open>r1 = Inr cs\<close> True n c \<open>r3 = Inr created\<close> k \<open>r4 = Inr eventId\<close> s u Inl d
            have "r = Inl (Error (''Failed to create calendar event: '' @ message e))" "w' = w7"
              by (simp_all add: createAppointment_def rollbackCreate_def)
            with nofault show ?thesis using G N C K S U D ident
              by (auto simp: newEvents_append)
          next
            case (Inr updated)
            with run g \<open>r1 = Inr cs\<close> True n c \<open>r3 = Inr created\<close> k \<open>r4 = Inr eventId\<close> s u
            have "r = Inr updated" "w' = w6"
              by (simp_all add: createAppointment_def)
            with nofault show ?thesis using G N C K S U ident
              by (auto simp: newEvents_append)
          qed
        qed
      qed
    qed
  qed
qed

lemma hours_lt_2: "(rat_of_int x / (1000 * 60 * 60) < 2) = (x < 7200000)"
proof -
  have "(rat_of_int x / (1000 * 60 * 60) < 2) = (rat_of_int x < rat_of_int 7200000)"
    by (simp add: field_simps)
  also have "\<dots> = (x < 7200000)"
    by (simp only: of_int_less_iff)
  finally show ?thesis .
qed

lemma findById_Some_first:
  "findById env i w = (Inr (Some a), w') \<Longrightarrow>
     \<exists>row rest. filter (\<lambda>r. Some (id_col r) = i) (appointments w) = row # rest
       \<and> a = mapRowToEntity row \<and> dbFault env (queries w) = None"
  by (auto simp: findById_def poolFault_def record_call_def Let_def mapFirstRow_def
        split: option.splits list.splits if_splits)

lemma update_Inr_first:
  "update env i a w = (Inr u, w') \<Longrightarrow>
     \<exists>row rest. filter (\<lambda>r. Some (id_col r) = i) (appointments w) = row # rest
        \<and> u = mapRowToEntity (set_columns a (clock env (clockReads w)) row)
        \<and> appointments w' =
            map (\<lambda>r. if Some (id_col r) = i then set_columns a (clock env (clockReads w)) r else r)
                (appointments w)"
  by (auto simp: update_def poolFault_def record_call_def newDate_def Let_def mapFirstRow_def
        split: option.splits if_splits list.splits)

lemma validate_result:
  assumes "validateAppointmentCanBeCancelled env a w = (r, w')"
  shows "appointments w' = appointments w \<and> trace w' = trace w \<and> queries w' = queries w
     \<and> calendarCalls w' = calendarCalls w
     \<and> (if status a = CANCELLED \<or> status a = COMPLETED
            \<or> startAt a - clock env (clockReads w) < 7200000
         then \<exists>m. r = Inl (AppointmentCancellationError m)
         else r = Inr () \<and> clockReads w' = Suc (clockReads w))"
  using assms
  by (auto simp: validateAppointmentCanBeCancelled_def newDate_def Let_def hours_lt_2
        split: if_splits)


lemma applyEdit_outcome:
  assumes run: "applyEdit env i data appt w = (r, w')"
  defines "a \<equiv> allowedUpdates data (clock env (clockReads w)) appt"
  shows "(\<exists>e. r = Inl e \<and> ((\<exists>m. e = DatabaseError m) \<or> (\<exists>m. e = TypeError m))
            \<and> appointments w' = appointments w
            \<and> trace w' = trace w @ [RepoUpdate (Some i) a])
       \<or> (\<exists>row rest u.
             filter (\<lambda>r. Some (id_col r) = Some i) (appointments w) = row # rest
           \<and> u = mapRowToEntity (set_columns a (clock env (Suc (clockReads w))) row)
           \<and> r = Inr u
           \<and> appointments w' =
               map (\<lambda>r. if Some (id_col r) = Some i
                        then set_columns a (clock env (Suc (clockReads w))) r else r)
                   (appointments w)
           \<and> trace w' = trace w @ RepoUpdate (Some i) a
                 # (if truthy (calendarEventId appt)
                    then [CalendarUpdate (calendarEventId appt) u] else []))"
proof -
  obtain now w1 where n: "newDate env w = (now, w1)" by fastforce
  then have N: "now = clock env (clockReads w)" "appointments w1 = appointments w"
    "trace w1 = trace w" "clockReads w1 = Suc (clockReads w)"
    by (auto simp: newDate_def)
  obtain r2 w2 where u: "update env (Some i) a w1 = (r2, w2)" by fastforce
  note U = update_result [OF u]
  show ?thesis
  proof (cases r2)
    case (Inl e)
    with run n u N have "r = Inl e" "w' = w2" by (simp_all add: applyEdit_def a_def)
    with update_Inl [of env "Some i" a w1 e w2] u Inl U N show ?thesis by auto
  next
    case (Inr dbResult)
    from update_Inr_first [of env "Some i" a w1 dbResult w2] u Inr N
    obtain row rest where first: "filter (\<lambda>r. Some (id_col r) = Some i) (appointments w) = row # rest"
      and res: "dbResult = mapRowToEntity (set_columns a (clock env (Suc (clockReads w))) row)"
      and tab: "appointments w2 =
               map (\<lambda>r. if Some (id_col r) = Some i
                        then set_columns a (clock env (Suc (clockReads w))) r else r)
                   (appointments w)"
      by auto
    show ?thesis
    proof (cases "truthy (calendarEventId appt)")
      case False
      with run n u N Inr have "r = Inr dbResult" "w' = w2" by (simp_all add: applyEdit_def a_def)
      with first res tab U N False show ?thesis by auto
    next
      case True
      obtain r3 w3 where k: "updateCalendarEvent env (calendarEventId appt) dbResult w2 = (r3, w3)"
        by fastforce
      note K = updateCalendarEvent_result [OF k]
      from run n u N Inr True k have "r = Inr dbResult" "w' = w3"
        by (auto simp: applyEdit_def a_def split: sum.splits)
      with first res tab U N True K show ?thesis by auto
    qed
  qed
qed

lemma editAppointment_outcome:
  assumes run: "editAppointment env i data w = (r, w')"
  shows "(\<exists>m. r = Inl (DatabaseError m) \<and> appointments w' = appointments w
            \<and> fst (findById env (Some i) w) = Inl (DatabaseError m)
            \<and> newEvents w w' = [RepoFindById (Some i)])
       \<or> (\<exists>m. r = Inl (NotFoundError m) \<and> appointments w' = appointments w
            \<and> fst (findById env (Some i) w) = Inr None
            \<and> newEvents w w' = [RepoFindById (Some i)])
       \<or> (\<exists>m s e. r = Inl (DatabaseError m) \<and> appointments w' = appointments w
            \<and> newEvents w w' = [RepoFindById (Some i), RepoGetConflicting s e (Some i)])
       \<or> (\<exists>m s e. r = Inl (TimeSlotUnavailableError m) \<and> appointments w' = appointments w
            \<and> newEvents w w' = [RepoFindById (Some i), RepoGetConflicting s e (Some i)])
       \<or> (\<exists>appt w1 w2 pre.
              findById env (Some i) w = (Inr (Some appt), w1)
            \<and> applyEdit env i data appt w2 = (r, w')
            \<and> appointments w2 = appointments w
            \<and> trace w2 = trace w @ RepoFindById (Some i) # pre
            \<and> (pre = [] \<or> (\<exists>s e. pre = [RepoGetConflicting s e (Some i)]))
            \<and> clockReads w2 = clockReads w \<and> calendarCalls w2 = calendarCalls w)"
proof -
  obtain r1 w1 where f: "findById env (Some i) w = (r1, w1)" by fastforce
  note F = findById_result [OF f]
  show ?thesis
  proof (cases r1)
    case (Inl e)
    with run f have "r = Inl e" "w' = w1" by (simp_all add: editAppointment_def)
    with findById_Inl [of env "Some i" w e w1] f Inl F show ?thesis
      by (auto simp: newEvents_append)
  next
    case (Inr found)
    show ?thesis
    proof (cases found)
      case None
      with run f Inr have "\<exists>m. r = Inl (NotFoundError m)" "w' = w1"
        by (auto simp: editAppointment_def)
      with F f Inr None show ?thesis by (auto simp: newEvents_append)
    next
      case (Some appt)
      show ?thesis
      proof (cases "\<exists>s e. p_startAt data = Some s \<and> p_endAt data = Some e")
        case False
        with run f Inr Some have "applyEdit env i data appt w1 = (r, w')"
          by (auto simp: editAppointment_def split: option.splits)
        with f Inr Some F show ?thesis by auto
      next
        case True
        then obtain s e where se: "p_startAt data = Some s" "p_endAt data = Some e" by auto
        obtain r2 w2 where g: "getConflictingAppointments env s e (Some i) w1 = (r2, w2)"
          by fastforce
        note G = getConflicting_result [OF g]
        show ?thesis
        proof (cases r2)
          case (Inl err)
          with run f Inr Some se g have "r = Inl err" "w' = w2"
            by (simp_all add: editAppointment_def)
          with G F Inl show ?thesis by (auto simp: newEvents_append split: option.splits)
        next
          case (Inr cs)
          show ?thesis
          proof (cases "cs = []")
            case False
            with run f \<open>r1 = Inr found\<close> Some se g Inr
            have "\<exists>m. r = Inl (TimeSlotUnavailableError m)" "w' = w2"
              by (auto simp: editAppointment_def split: option.splits)
            with G F show ?thesis by (auto simp: newEvents_append)
          next
            case True
            with run f \<open>r1 = Inr found\<close> Some se g Inr
            have "applyEdit env i data appt w2 = (r, w')"
              by (simp add: editAppointment_def)
            with f \<open>r1 = Inr found\<close> Some F G show ?thesis by auto
          qed
        qed
      qed
    qed
  qed
qed


lemma cancelAppointment_outcome:
  assumes run: "cancelAppointment env i w = (r, w')"
  shows "(\<exists>m. r = Inl (DatabaseError m) \<and> appointments w' = appointments w
            \<and> fst (findById env (Some i) w) = Inl (DatabaseError m)
            \<and> newEvents w w' = [RepoFindById (Some i)])
       \<or> (\<exists>m. r = Inl (NotFoundError m) \<and> appointments w' = appointments w
            \<and> fst (findById env (Some i) w) = Inr None
            \<and> newEvents w w' = [RepoFindById (Some i)])
       \<or> (\<exists>appt w1 m.
              findById env (Some i) w = (Inr (Some appt), w1)
            \<and> (status appt = CANCELLED \<or> status appt = COMPLETED
                 \<or> startAt appt - clock env (clockReads w) < 7200000)
            \<and> r = Inl (AppointmentCancellationError m) \<and> appointments w' = appointments w
            \<and> newEvents w w' = [RepoFindById (Some i)])
       \<or> (\<exists>appt w1 e.
              findById env (Some i) w = (Inr (Some appt), w1)
            \<and> status appt \<noteq> CANCELLED \<and> status appt \<noteq> COMPLETED
            \<and> \<not> startAt appt - clock env (clockReads w) < 7200000
            \<and> r = Inl e \<and> ((\<exists>m. e = DatabaseError m) \<or> (\<exists>m. e = TypeError m))
            \<and> appointments w' = appointments w
            \<and> (\<exists>w3. appointments w3 = appointments w \<and> queries w3 = Suc (queries w)
                   \<and> update env (Some i)
                         (appt\<lparr>status := CANCELLED,
                               updatedAt := Some (clock env (Suc (clockReads w)))\<rparr>) w3
                       = (Inl e, w'))
            \<and> newEvents w w' =
                [RepoFindById (Some i),
                 RepoUpdate (Some i)
                   (appt\<lparr>status := CANCELLED,
                         updatedAt := Some (clock env (Suc (clockReads w)))\<rparr>)])
       \<or> (\<exists>appt w1 row rest.
              findById env (Some i) w = (Inr (Some appt), w1)
            \<and> status appt \<noteq> CANCELLED \<and> status appt \<noteq> COMPLETED
            \<and> \<not> startAt appt - clock env (clockReads w) < 7200000
            \<and> r = Inr True
            \<and> filter (\<lambda>r. Some (id_col r) = Some i) (appointments w) = row # rest
            \<and> appointments w' =
                map (\<lambda>r. if Some (id_col r) = Some i
                         then set_columns
                                (appt\<lparr>status := CANCELLED,
                                      updatedAt := Some (clock env (Suc (clockReads w)))\<rparr>)
                                (clock env (Suc (Suc (clockReads w)))) r
                         else r)
                    (appointments w)
            \<and> newEvents w w' =
                RepoFindById (Some i)
                # RepoUpdate (Some i)
                    (appt\<lparr>status := CANCELLED,
                          updatedAt := Some (clock env (Suc (clockReads w)))\<rparr>)
                # (if truthy (calendarEventId appt)
                   then [CalendarDelete (calendarEventId appt)] else []))"
proof -
  obtain r1 w1 where f: "findById env (Some i) w = (r1, w1)" by fastforce
  note F = findById_result [OF f]
  show ?thesis
  proof (cases r1)
    case (Inl e)
    with run f have "r = Inl e" "w' = w1" by (simp_all add: cancelAppointment_def)
    with findById_Inl [of env "Some i" w e w1] f Inl F show ?thesis
      by (auto simp: newEvents_append)
  next
    case (Inr found)
    show ?thesis
    proof (cases found)
      case None
      with run f Inr have "\<exists>m. r = Inl (NotFoundError m)" "w' = w1"
        by (auto simp: cancelAppointment_def)
      with F f Inr None show ?thesis by (auto simp: newEvents_append)
    next
      case (Some appt)
      obtain r2 w2 where v: "validateAppointmentCanBeCancelled env appt w1 = (r2, w2)"
        by fastforce
      note V = validate_result [OF v]
      show ?thesis
      proof (cases "status appt = CANCELLED \<or> status appt = COMPLETED
                 \<or> startAt appt - clock env (clockReads w) < 7200000")
        case True
        with V F obtain m where m: "r2 = Inl (AppointmentCancellationError m)" by auto
        with run f Inr Some v have "r = Inl (AppointmentCancellationError m)" "w' = w2"
          by (simp_all add: cancelAppointment_def)
        with V F f Inr Some True show ?thesis
          by (auto simp: newEvents_append)
      next
        case False
        with V F have ok: "r2 = Inr ()" "clockReads w2 = Suc (clockReads w)" by auto
        define c where "c = appt\<lparr>status := CANCELLED,
                                  updatedAt := Some (clock env (Suc (clockReads w)))\<rparr>"
        obtain now w3 where n: "newDate env w2 = (now, w3)" by fastforce
        with ok have N: "now = clock env (Suc (clockReads w))" "appointments w3 = appointments w2"
          "trace w3 = trace w2" "clockReads w3 = Suc (Suc (clockReads w))"
          "calendarCalls w3 = calendarCalls w2" "queries w3 = queries w2"
          by (auto simp: newDate_def)
        obtain r4 w4 where u: "update env (Some i) c w3 = (r4, w4)" by fastforce
        note U = update_result [OF u]
        show ?thesis
        proof (cases r4)
          case (Inl e)
          with run f Inr Some v ok n N u have "r = Inl e" "w' = w4"
            by (simp_all add: cancelAppointment_def c_def)
          moreover from u Inl N V F
          have "\<exists>w3. appointments w3 = appointments w \<and> queries w3 = Suc (queries w)
                   \<and> update env (Some i) c w3 = (Inl e, w4)"
            by auto
          ultimately show ?thesis
            using update_Inl [of env "Some i" c w3 e w4] u Inl U N V F f Inr Some False
            by (auto simp: newEvents_append c_def)
        next
          case (Inr dbResult)
          from update_Inr_first [of env "Some i" c w3 dbResult w4] u Inr N V F
          obtain row rest where
            first: "filter (\<lambda>r. Some (id_col r) = Some i) (appointments w) = row # rest"
            and tab: "appointments w4 =
               map (\<lambda>r. if Some (id_col r) = Some i
                        then set_columns c (clock env (Suc (Suc (clockReads w)))) r else r)
                   (appointments w)"
            by auto
          have cal: "calendarEventId c = calendarEventId appt" by (simp add: c_def)
          show ?thesis
          proof (cases "truthy (calendarEventId appt)")
            case no: False
            with run f \<open>r1 = Inr found\<close> Some v ok n N u Inr cal have "r = Inr True" "w' = w4"
              by (simp_all add: cancelAppointment_def c_def)
            with first tab U N V F f \<open>r1 = Inr found\<close> Some False no show ?thesis
              by (auto simp: newEvents_append c_def)
          next
            case yes: True
            obtain r5 w5 where k: "deleteCalendarEvent env (calendarEventId appt) w4 = (r5, w5)"
              by fastforce
            note K = deleteCalendarEvent_result [OF k]
            from run f \<open>r1 = Inr found\<close> Some v ok n N u Inr cal yes k
            have "r = Inr True" "w' = w5"
              by (auto simp: cancelAppointment_def c_def split: sum.splits)
            with first tab U N V F K f \<open>r1 = Inr found\<close> Some False yes show ?thesis
              by (auto simp: newEvents_append c_def)
          qed
        qed
      qed
    qed
  qed
qed

lemma applyEdit_calendar:
  assumes run: "applyEdit env i data appt w = (r, w')"
      and called: "CalendarUpdate ev u \<in> set (newEvents w w')"
  shows "\<exists>w2 k. updateCalendarEvent env ev u w2 = (k, w')
            \<and> calendarCalls w2 = calendarCalls w \<and> appointments w2 = appointments w'"
proof -
  obtain now w1 where n: "newDate env w = (now, w1)" by fastforce
  then have N: "trace w1 = trace w" "calendarCalls w1 = calendarCalls w"
    by (auto simp: newDate_def)
  obtain r2 w2 where u: "update env (Some i) (allowedUpdates data now appt) w1 = (r2, w2)"
    by fastforce
  note U = update_result [OF u]
  show ?thesis
  proof (cases r2)
    case (Inl e)
    with run n u have "w' = w2" by (simp add: applyEdit_def)
    with U N called show ?thesis by (simp add: newEvents_append)
  next
    case (Inr dbResult)
    show ?thesis
    proof (cases "truthy (calendarEventId appt)")
      case False
      with run n u Inr have "w' = w2" by (simp add: applyEdit_def)
      with U N called show ?thesis by (simp add: newEvents_append)
    next
      case True
      obtain r3 w3 where k: "updateCalendarEvent env (calendarEventId appt) dbResult w2 = (r3, w3)"
        by fastforce
      note K = updateCalendarEvent_result [OF k]
      from run n u Inr True k have w': "w' = w3" by (simp add: applyEdit_def)
      from K U N have "newEvents w w3 = [RepoUpdate (Some i) (allowedUpdates data now appt),
                          CalendarUpdate (calendarEventId appt) dbResult]"
        by (simp add: newEvents_append)
      with called w' have "ev = calendarEventId appt" "u = dbResult" by simp_all
      with k w' K U N show ?thesis by auto
    qed
  qed
qed

lemma editAppointment_calendar:
  assumes run: "editAppointment env i data w = (r, w')"
      and called: "CalendarUpdate ev u \<in> set (newEvents w w')"
  shows "\<exists>w2 k. updateCalendarEvent env ev u w2 = (k, w')
            \<and> calendarCalls w2 = calendarCalls w \<and> appointments w2 = appointments w'"
proof -
  from editAppointment_outcome [OF run] called
  obtain appt wa pre where ap: "applyEdit env i data appt wa = (r, w')"
    and cc: "calendarCalls wa = calendarCalls w"
    and tr: "trace wa = trace w @ RepoFindById (Some i) # pre"
    and pre: "pre = [] \<or> (\<exists>s e. pre = [RepoGetConflicting s e (Some i)])"
    by (elim disjE exE conjE) auto
  from applyEdit_outcome [OF ap] obtain rest where rest: "trace w' = trace wa @ rest"
    by (elim disjE exE conjE) auto
  with tr have "newEvents w w' = RepoFindById (Some i) # pre @ rest"
    by (simp add: newEvents_append)
  with called pre have "CalendarUpdate ev u \<in> set rest" by auto
  with rest have "CalendarUpdate ev u \<in> set (newEvents wa w')"
    by (simp add: newEvents_append)
  from applyEdit_calendar [OF ap this] cc show ?thesis by auto
qed

lemma cancelAppointment_calendar:
  assumes run: "cancelAppointment env i w = (r, w')"
      and called: "CalendarDelete ev \<in> set (newEvents w w')"
  shows "\<exists>w4 k. deleteCalendarEvent env ev w4 = (k, w')
            \<and> calendarCalls w4 = calendarCalls w \<and> appointments w4 = appointments w'"
proof -
  from cancelAppointment_outcome [OF run] called
  obtain appt w1 where found: "findById env (Some i) w = (Inr (Some appt), w1)"
    and ok: "\<not> (status appt = CANCELLED \<or> status appt = COMPLETED
                 \<or> startAt appt - clock env (clockReads w) < 7200000)"
    and res: "r = Inr True"
    and has: "truthy (calendarEventId appt)"
    and ev: "ev = calendarEventId appt"
    by (elim disjE exE conjE) (auto split: if_splits)
  note F = findById_result [OF found]
  obtain r2 w2 where v: "validateAppointmentCanBeCancelled env appt w1 = (r2, w2)"
    by fastforce
  note V = validate_result [OF v]
  from V F ok have r2: "r2 = Inr ()" by auto
  obtain now w3 where n: "newDate env w2 = (now, w3)" by fastforce
  then have N: "calendarCalls w3 = calendarCalls w2" by (auto simp: newDate_def)
  define c where "c = appt\<lparr>status := CANCELLED, updatedAt := Some now\<rparr>"
  obtain r4 w4 where u: "update env (Some i) c w3 = (r4, w4)" by fastforce
  note U = update_result [OF u]
  obtain r5 w5 where k: "deleteCalendarEvent env (calendarEventId appt) w4 = (r5, w5)"
    by fastforce
  note K = deleteCalendarEvent_result [OF k]
  have cal: "calendarEventId c = calendarEventId appt" by (simp add: c_def)
  from run found v r2 n u res have "\<exists>d. r4 = Inr d"
    by (cases r4) (simp_all add: cancelAppointment_def c_def)
  with run found v r2 n u k has cal have "w' = w5"
    by (auto simp: cancelAppointment_def c_def)
  with k ev K U N V F show ?thesis by auto
qed

lemma mapRowToEntity_contacts:
  "email (mapRowToEntity r) \<noteq> Some []" "phoneNumber (mapRowToEntity r) \<noteq> Some []"
  by (auto simp: mapRowToEntity_def orNull_def truthy_def split: option.splits)

lemma samePerson_mapped:
  "samePerson cEmail cPhone (mapRowToEntity r) =
     ((cEmail \<noteq> None \<and> email (mapRowToEntity r) = cEmail)
      \<or> (cPhone \<noteq> None \<and> phoneNumber (mapRowToEntity r) = cPhone))"
  using mapRowToEntity_contacts [of r]
  by (auto simp: samePerson_def truthy_def split: option.splits)

lemma find_samePerson:
  "(find (samePerson cEmail cPhone) (map mapRowToEntity rows) = None) =
     (\<not> (\<exists>apt \<in> set (map mapRowToEntity rows).
            (cEmail \<noteq> None \<and> email apt = cEmail) \<or> (cPhone \<noteq> None \<and> phoneNumber apt = cPhone)))"
  by (simp add: find_None_iff samePerson_mapped)

lemma distinct_key_unique:
  assumes "distinct (map f xs)" "x \<in> set xs" "y \<in> set xs" "f x = f y"
  shows "x = y"
  using assms by (meson distinct_map inj_on_eq_iff)

lemma filter_key_single:
  assumes d: "distinct (map f xs)" and fl: "filter (\<lambda>r. Some (f r) = k) xs = row # rest"
  shows "rest = []"
proof (cases rest)
  case Nil
  then show ?thesis .
next
  case (Cons r2 rest')
  from d have "distinct (map f (filter (\<lambda>r. Some (f r) = k) xs))"
    by (rule distinct_map_filter)
  with fl Cons have "f row \<noteq> f r2" by simp
  moreover from fl Cons have "row \<in> set (filter (\<lambda>r. Some (f r) = k) xs)"
    "r2 \<in> set (filter (\<lambda>r. Some (f r) = k) xs)"
    by simp_all
  then have "Some (f row) = k" "Some (f r2) = k" by simp_all
  ultimately show ?thesis by auto
qed

lemma update_same_slot_succeeds:
  assumes wf: "wf_table (appointments w)"
      and nofault: "dbFault env (queries w) = None"
      and first: "filter (\<lambda>r. Some (id_col r) = i) (appointments w) = row # rest"
      and same: "startAt a = start_at row" "endAt a = end_at row"
  shows "\<exists>u w'. update env i a w = (Inr u, w')"
proof -
  from wf have ids: "distinct (map id_col (appointments w))"
    and slots: "distinct (map (\<lambda>r. (start_at r, end_at r)) (appointments w))"
    and checks: "\<forall>r \<in> set (appointments w). start_at r < end_at r
                      \<and> (email_col r \<noteq> None \<or> phone_number r \<noteq> None)"
    by (auto simp: wf_table_def list_all_iff)
  from filter_key_single [OF ids first] have rest: "rest = []" .
  from first have row: "row \<in> set (appointments w)" "Some (id_col row) = i"
    by (metis filter_eq_ConsD in_set_conv_decomp, metis (mono_tags, lifting) filter_eq_ConsD)
  let ?now = "clock env (clockReads w)"
  have ok: "\<not> violates_check (set_columns a ?now row)"
    using checks row same by (auto simp: violates_check_def set_columns_def)
  have free: "\<not> list_ex (same_slot (set_columns a ?now row))
                 (filter (\<lambda>r. Some (id_col r) \<noteq> i) (appointments w))"
  proof
    assume "list_ex (same_slot (set_columns a ?now row))
                 (filter (\<lambda>r. Some (id_col r) \<noteq> i) (appointments w))"
    then obtain r' where r': "r' \<in> set (appointments w)" "Some (id_col r') \<noteq> i"
      and slot: "start_at r' = start_at row" "end_at r' = end_at row"
      using same by (auto simp: list_ex_iff same_slot_def set_columns_def)
    from distinct_key_unique [OF slots r'(1) row(1)] slot have "r' = row" by simp
    with r'(2) row(2) show False by simp
  qed
  from nofault first rest ok free show ?thesis
    by (simp add: update_def poolFault_def record_call_def newDate_def Let_def mapFirstRow_def)
qed

lemma editAppointment_found_outcome:
  assumes found: "findById env (Some i) w = (Inr (Some appt), w1)"
      and run: "editAppointment env i data w = (r, w')"
  defines "a \<equiv> allowedUpdates data (clock env (clockReads w)) appt"
  shows "((\<exists>e. r = Inl e) \<and> appointments w' = appointments w
           \<and> (\<exists>s e. newEvents w w' = [RepoFindById (Some i), RepoGetConflicting s e (Some i)]))
       \<or> (\<exists>pre. (pre = [] \<or> (\<exists>s e. pre = [RepoGetConflicting s e (Some i)]))
             \<and> (\<exists>e. r = Inl e \<and> ((\<exists>m. e = DatabaseError m) \<or> (\<exists>m. e = TypeError m)))
             \<and> appointments w' = appointments w
             \<and> newEvents w w' = RepoFindById (Some i) # pre @ [RepoUpdate (Some i) a])
       \<or> (\<exists>pre row rest u.
               (pre = [] \<or> (\<exists>s e. pre = [RepoGetConflicting s e (Some i)]))
             \<and> filter (\<lambda>r. Some (id_col r) = Some i) (appointments w) = row # rest
             \<and> appt = mapRowToEntity row
             \<and> u = mapRowToEntity (set_columns a (clock env (Suc (clockReads w))) row)
             \<and> r = Inr u
             \<and> appointments w' =
                 map (\<lambda>r. if Some (id_col r) = Some i
                          then set_columns a (clock env (Suc (clockReads w))) r else r)
                     (appointments w)
             \<and> newEvents w w' = RepoFindById (Some i) # pre @ RepoUpdate (Some i) a
                   # (if truthy (calendarEventId appt)
                      then [CalendarUpdate (calendarEventId appt) u] else []))"
proof -
  from findById_Some_first [OF found]
  obtain row0 rest0 where first0: "filter (\<lambda>r. Some (id_col r) = Some i) (appointments w) = row0 # rest0"
    and appt: "appt = mapRowToEntity row0"
    by auto
  from editAppointment_outcome [OF run] found
  consider (conflict) "(\<exists>e. r = Inl e) \<and> appointments w' = appointments w
           \<and> (\<exists>s e. newEvents w w' = [RepoFindById (Some i), RepoGetConflicting s e (Some i)])"
    | (reached) w2 pre where "applyEdit env i data appt w2 = (r, w')"
        "appointments w2 = appointments w" "trace w2 = trace w @ RepoFindById (Some i) # pre"
        "pre = [] \<or> (\<exists>s e. pre = [RepoGetConflicting s e (Some i)])"
        "clockReads w2 = clockReads w"
    by (elim disjE exE conjE) auto
  then show ?thesis
  proof cases
    case conflict
    then show ?thesis by simp
  next
    case reached
    have "(\<exists>e. r = Inl e \<and> ((\<exists>m. e = DatabaseError m) \<or> (\<exists>m. e = TypeError m))
            \<and> appointments w' = appointments w
            \<and> trace w' = trace w @ (RepoFindById (Some i) # pre @ [RepoUpdate (Some i) a]))
       \<or> (\<exists>row rest u.
             filter (\<lambda>r. Some (id_col r) = Some i) (appointments w) = row # rest
           \<and> u = mapRowToEntity (set_columns a (clock env (Suc (clockReads w))) row)
           \<and> r = Inr u
           \<and> appointments w' =
               map (\<lambda>r. if Some (id_col r) = Some i
                        then set_columns a (clock env (Suc (clockReads w))) r else r)
                   (appointments w)
           \<and> trace w' = trace w @ (RepoFindById (Some i) # pre @ RepoUpdate (Some i) a
                 # (if truthy (calendarEventId appt)
                    then [CalendarUpdate (calendarEventId appt) u] else [])))"
      using applyEdit_outcome [OF reached(1)]
      unfolding reached(2,3,5) a_def by simp
    then consider
      (failed) e where "r = Inl e" "(\<exists>m. e = DatabaseError m) \<or> (\<exists>m. e = TypeError m)"
        "appointments w' = appointments w"
        "trace w' = trace w @ (RepoFindById (Some i) # pre @ [RepoUpdate (Some i) a])"
    | (updated) row rest u where
        "filter (\<lambda>r. Some (id_col r) = Some i) (appointments w) = row # rest"
        "u = mapRowToEntity (set_columns a (clock env (Suc (clockReads w))) row)"
        "r = Inr u"
        "appointments w' =
               map (\<lambda>r. if Some (id_col r) = Some i
                        then set_columns a (clock env (Suc (clockReads w))) r else r)
                   (appointments w)"
        "trace w' = trace w @ (RepoFindById (Some i) # pre @ RepoUpdate (Some i) a
                 # (if truthy (calendarEventId appt)
                    then [CalendarUpdate (calendarEventId appt) u] else []))"
      by blast
    then show ?thesis
    proof cases
      case failed
      from newEvents_append [OF failed(4)]
      have "newEvents w w' = RepoFindById (Some i) # pre @ [RepoUpdate (Some i) a]" .
      with failed(1,2,3) reached(4) show ?thesis
        by blast
    next
      case updated
      from updated(1) first0 have "row = row0" by simp
      with appt have "appt = mapRowToEntity row" by simp
      moreover from newEvents_append [OF updated(5)]
      have "newEvents w w' = RepoFindById (Some i) # pre @ RepoUpdate (Some i) a
                   # (if truthy (calendarEventId appt)
                      then [CalendarUpdate (calendarEventId appt) u] else [])" .
      ultimately show ?thesis
        using updated(1,2,3,4) reached(4) by blast
    qed
  qed
qed

lemma orNull_idem: "orNull (orNull v) = orNull v"
  by (simp add: orNull_def truthy_def)

lemma mapRowToEntity_set_columns:
  "mapRowToEntity (set_columns (allowedUpdates data now (mapRowToEntity row)) t row) =
     (mapRowToEntity row)
       \<lparr> startAt := (case p_startAt data of Some s \<Rightarrow> s | None \<Rightarrow> start_at row),
          endAt := (case p_endAt data of Some e \<Rightarrow> e | None \<Rightarrow> end_at row),
          type' := (case p_type data of Some k \<Rightarrow> k | None \<Rightarrow> type_col row),
          updatedAt := Some t \<rparr>"
  by (simp add: mapRowToEntity_def set_columns_def allowedUpdates_def orNull_idem
        split: option.splits)

lemma applyEdit_ignores_other_fields:
  "applyEdit env i
     (data\<lparr> p_firstName := xFirstName, p_lastName := xLastName, p_email := xEmail,
            p_phoneNumber := xPhoneNumber, p_notes := xNotes, p_reason := xReason,
            p_callId := xCallId \<rparr>) appt w
   = applyEdit env i data appt w"
  by (simp add: applyEdit_def allowedUpdates_def)

lemma editAppointment_ignores_other_fields:
  "editAppointment env i
     (data\<lparr> p_firstName := xFirstName, p_lastName := xLastName, p_email := xEmail,
            p_phoneNumber := xPhoneNumber, p_notes := xNotes, p_reason := xReason,
            p_callId := xCallId \<rparr>) w
   = editAppointment env i data w"
  by (simp add: editAppointment_def applyEdit_ignores_other_fields
        split: prod.splits sum.splits option.splits)

lemma updated_row_member:
  assumes "filter (\<lambda>r. Some (id_col r) = Some i) rows = row # rest"
  shows "row \<in> set rows" and "id_col row = i"
    and "f row \<in> set (map (\<lambda>r. if Some (id_col r) = Some i then f r else r) rows)"
proof -
  from assms have "row \<in> set (filter (\<lambda>r. Some (id_col r) = Some i) rows)" by simp
  then show row: "row \<in> set rows" and ident: "id_col row = i" by simp_all
  show "f row \<in> set (map (\<lambda>r. if Some (id_col r) = Some i then f r else r) rows)"
    unfolding set_map by (rule image_eqI [where x = row]) (simp_all add: row ident)
qed

lemmas edit_defs = editAppointment_def applyEdit_def allowedUpdates_def samePerson_def
  newEvents_def

lemmas concrete_defs = env0_def world0_def row_a_def row_b_def row_c_def
  id_a_def id_b_def id_c_def id_d_def id_absent_def id_new_def

lemmas calendar_defs = createCalendarEvent_def updateCalendarEvent_def deleteCalendarEvent_def
  failureDetails_def orValue_def truthyValue_def newError_def api_error_def not_found_error_def

lemmas repo_defs = getConflictingAppointments_def create_def update_def delete_def findById_def
  poolFault_def record_call_def newDate_def mapRowToEntity_def mapFirstRow_def
  conflicts_with_def isActive_def truthy_def orNull_def violates_check_def
  violates_unique_def same_slot_def set_columns_def calendar_defs

lemma conflicts_with_exclude:
  "id_col r \<noteq> [] \<Longrightarrow>
   conflicts_with s e x r =
     (status_col r \<in> {SCHEDULED, CONFIRMED} \<and> start_at r < e \<and> end_at r > s \<and> Some (id_col r) \<noteq> x)"
  by (auto simp: conflicts_with_def isActive_def truthy_def split: option.splits)

lemma filter_conflicts_with:
  "list_all (\<lambda>r. id_col r \<noteq> []) rows \<Longrightarrow>
   filter (conflicts_with s e x) rows =
   filter (\<lambda>r. status_col r \<in> {SCHEDULED, CONFIRMED} \<and> start_at r < e \<and> end_at r > s \<and> Some (id_col r) \<noteq> x) rows"
  by (rule filter_cong) (auto simp: list_all_iff conflicts_with_exclude)

lemma mapRowToEntity_interval:
  "startAt (mapRowToEntity r) = start_at r" "endAt (mapRowToEntity r) = end_at r"
  by (simp_all add: mapRowToEntity_def)

section \<open>The conflict query\<close>

text \<open>
  Claim C1. On a table whose identifiers are not empty, an answered conflict query
  returns exactly the rows of status scheduled or confirmed whose interval overlaps the
  queried one (\<open>start_at < e\<close> and \<open>end_at > s\<close>), without the row of the excluded
  identifier if one is given, each mapped to its entity. Hence a row that only touches
  the queried interval (its end is the queried start, or its start the queried end) is
  not reported, and no reported appointment ends at the queried start or starts at the
  queried end.
\<close>

theorem getConflictingAppointments_half_open:
  assumes ids: "list_all (\<lambda>r. id_col r \<noteq> []) (appointments w)"
      and answered: "dbFault env (queries w) = None"
  shows "\<exists>cs. fst (getConflictingAppointments env s e x w) = Inr cs
           \<and> cs = map mapRowToEntity
                    (filter (\<lambda>r. status_col r \<in> {SCHEDULED, CONFIRMED}
                                 \<and> start_at r < e \<and> end_at r > s \<and> Some (id_col r) \<noteq> x)
                            (appointments w))
           \<and> (\<forall>r \<in> set (appointments w).
                 end_at r = s \<or> start_at r = e \<longrightarrow> mapRowToEntity r \<notin> set cs)
           \<and> (\<forall>a \<in> set cs. endAt a \<noteq> s \<and> startAt a \<noteq> e)"
proof -
  obtain r w' where run: "getConflictingAppointments env s e x w = (r, w')"
    by (cases "getConflictingAppointments env s e x w")
  let ?rows = "filter (\<lambda>r. status_col r \<in> {SCHEDULED, CONFIRMED}
                            \<and> start_at r < e \<and> end_at r > s \<and> Some (id_col r) \<noteq> x)
                      (appointments w)"
  from getConflicting_result [OF run] answered
  have "r = Inr (map mapRowToEntity (filter (conflicts_with s e x) (appointments w)))"
    by simp
  with filter_conflicts_with [OF ids] have res: "r = Inr (map mapRowToEntity ?rows)"
    by simp
  have touch: "mapRowToEntity r' \<notin> set (map mapRowToEntity ?rows)"
    if "end_at r' = s \<or> start_at r' = e" for r'
  proof
    assume "mapRowToEntity r' \<in> set (map mapRowToEntity ?rows)"
    then obtain q where q: "q \<in> set ?rows" and eq: "mapRowToEntity r' = mapRowToEntity q"
      by auto
    from eq have "start_at r' = start_at q" "end_at r' = end_at q"
      by (metis mapRowToEntity_interval(1), metis mapRowToEntity_interval(2))
    with q that show False by auto
  qed
  have inside: "endAt a \<noteq> s \<and> startAt a \<noteq> e" if "a \<in> set (map mapRowToEntity ?rows)" for a
    using that by (auto simp: mapRowToEntity_interval)
  from res run touch inside show ?thesis by auto
qed

theorem getConflictingAppointments_half_open_witness:
  "list_all (\<lambda>r. id_col r \<noteq> []) (appointments world0)
   \<and> dbFault env0 (queries world0) = None
   \<and> fst (getConflictingAppointments env0 37800000 39600000 None world0) = Inr [mapRowToEntity row_a]
   \<and> end_at row_a = 39600000 \<and> start_at row_b = 39600000
   \<and> fst (getConflictingAppointments env0 39600000 43200000 (Some id_b) world0) = Inr []"
proof -
  have ids: "list_all (\<lambda>r. id_col r \<noteq> []) (appointments world0)"
    by (simp add: concrete_defs)
  have answered: "dbFault env0 (queries world0) = None"
    by (simp add: env0_def)
  from getConflictingAppointments_half_open [OF ids answered, of 37800000 39600000 None]
       getConflictingAppointments_half_open [OF ids answered, of 39600000 43200000 "Some id_b"]
  show ?thesis
    using ids answered by (simp add: concrete_defs)
qed

section \<open>Creating an appointment\<close>

text \<open>
  Claim C6. When the conflict query of \<^verbatim>\<open>createAppointment\<close> returns at least one
  record, the call fails with \<^verbatim>\<open>TimeSlotUnavailableError\<close> and nothing else happens. The
  message is \<^verbatim>\<open>You already have an appointment scheduled during this time slot from
  ... to ...\<close> exactly when some conflicting record has the email of the request, the
  request having one, or the phone number of the request, the request having one;
  otherwise it is \<^verbatim>\<open>Time slot from ... to ... is already booked\<close>, the two instants being
  the start and the end of the request as \<^verbatim>\<open>toISOString\<close> prints them. The two messages
  differ, and with either the error carries the code \<^verbatim>\<open>TIME_SLOT_UNAVAILABLE\<close>.
\<close>

theorem createAppointment_conflict_message:
  assumes query: "getConflictingAppointments env (startAt data) (endAt data) None w = (Inr cs, w1)"
      and some: "cs \<noteq> []"
  shows "createAppointment env data w =
           (Inl (TimeSlotUnavailableError
                  (if \<exists>apt \<in> set cs. (email data \<noteq> None \<and> email apt = email data)
                                     \<or> (phoneNumber data \<noteq> None \<and> phoneNumber apt = phoneNumber data)
                   then ''You already have an appointment scheduled during this time slot from ''
                          @ toISOString env (startAt data) @ '' to '' @ toISOString env (endAt data)
                   else ''Time slot from '' @ toISOString env (startAt data) @ '' to ''
                          @ toISOString env (endAt data) @ '' is already booked'')), w1)
         \<and> ''You already have an appointment scheduled during this time slot from ''
               @ toISOString env (startAt data) @ '' to '' @ toISOString env (endAt data)
             \<noteq> ''Time slot from '' @ toISOString env (startAt data) @ '' to ''
                 @ toISOString env (endAt data) @ '' is already booked''
         \<and> (case fst (createAppointment env data w) of
               Inl e \<Rightarrow> code e = Some ''TIME_SLOT_UNAVAILABLE''
             | Inr a \<Rightarrow> False)
         \<and> appointments w1 = appointments w"
proof -
  from getConflicting_result [OF query]
  obtain rows where cs: "cs = map mapRowToEntity rows" and same: "appointments w1 = appointments w"
    by (auto split: option.splits)
  show ?thesis
  proof (cases "find (samePerson (email data) (phoneNumber data)) cs")
    case None
    with find_samePerson [of "email data" "phoneNumber data" rows] cs
    have "\<not> (\<exists>apt \<in> set cs. (email data \<noteq> None \<and> email apt = email data)
                 \<or> (phoneNumber data \<noteq> None \<and> phoneNumber apt = phoneNumber data))"
      by simp
    with None query some same show ?thesis
      by (simp add: createAppointment_def createBookedMessage_def)
  next
    case (Some apt)
    with find_samePerson [of "email data" "phoneNumber data" rows] cs
    have "\<exists>apt \<in> set cs. (email data \<noteq> None \<and> email apt = email data)
                 \<or> (phoneNumber data \<noteq> None \<and> phoneNumber apt = phoneNumber data)"
      by simp
    with Some query some same show ?thesis
      by (simp add: createAppointment_def createSamePersonMessage_def)
  qed
qed

theorem createAppointment_conflict_message_witness:
  "fst (getConflictingAppointments env0 37800000 41400000 None world0)
     = Inr [mapRowToEntity row_a, mapRowToEntity row_b]
   \<and> email req_john = email (mapRowToEntity row_a)
   \<and> fst (createAppointment env0 req_john world0)
     = Inl (TimeSlotUnavailableError
         ''You already have an appointment scheduled during this time slot from 1970-01-01T10:30:00.000Z to 1970-01-01T11:30:00.000Z'')
   \<and> fst (createAppointment env0 req_mary world0)
     = Inl (TimeSlotUnavailableError
         ''Time slot from 1970-01-01T10:30:00.000Z to 1970-01-01T11:30:00.000Z is already booked'')"
proof -
  define w1 where "w1 = snd (getConflictingAppointments env0 37800000 41400000 None world0)"
  have found: "fst (getConflictingAppointments env0 37800000 41400000 None world0)
     = Inr [mapRowToEntity row_a, mapRowToEntity row_b]"
    by (simp add: concrete_defs getConflictingAppointments_def poolFault_def record_call_def
          conflicts_with_def isActive_def truthy_def)
  have john: "getConflictingAppointments env0 (startAt req_john) (endAt req_john) None world0
     = (Inr [mapRowToEntity row_a, mapRowToEntity row_b], w1)"
    using found by (simp add: w1_def req_john_def prod_eq_iff)
  have mary: "getConflictingAppointments env0 (startAt req_mary) (endAt req_mary) None world0
     = (Inr [mapRowToEntity row_a, mapRowToEntity row_b], w1)"
    using found by (simp add: w1_def req_mary_def prod_eq_iff)
  have some: "[mapRowToEntity row_a, mapRowToEntity row_b] \<noteq> []" by simp
  from createAppointment_conflict_message [OF john some]
       createAppointment_conflict_message [OF mary some] found
  show ?thesis
    by (simp add: req_john_def req_mary_def row_a_def row_b_def mapRowToEntity_def
          orNull_def truthy_def env0_def)
qed

text \<open>
  Claim C2. In every run of \<^verbatim>\<open>createAppointment\<close> that calls the calendar, the calls
  made begin with the conflict query, then \<^verbatim>\<open>create\<close> on the store, then the calendar
  call, on the record the store returned with its assigned identifier: the store is
  written before the calendar is called. \<^verbatim>\<open>createCalendarEvent\<close> throws in two cases:
  the Google client rejects the insert, or its response carries no identifier. In both
  the only further call is \<^verbatim>\<open>delete\<close> on the store with the identifier of the created
  record, and the caller receives the plain error \<^verbatim>\<open>Failed to create calendar event:
  Calendar event creation failed...\<close>, never a record, whatever the outcome of the delete.
\<close>

theorem createAppointment_sync_failure:
  assumes run: "createAppointment env data w = (r, w')"
      and called: "CalendarCreate c \<in> set (newEvents w w')"
  shows "(\<exists>a rest. newEvents w w' =
            RepoGetConflicting (startAt data) (endAt data) None # RepoCreate a
              # CalendarCreate c # rest)
       \<and> id' c = Some (genId env (Suc (queries w)))
       \<and> (\<forall>err. googleCalendar env (calendarCalls w) = Rejected err \<longrightarrow>
             r = Inl (Error (''Failed to create calendar event: ''
                    @ ''Calendar event creation failed'' @ failureDetails env err))
             \<and> (\<exists>a. newEvents w w' =
                    [RepoGetConflicting (startAt data) (endAt data) None, RepoCreate a,
                     CalendarCreate c, RepoDelete (id' c)]))
       \<and> (\<forall>i. googleCalendar env (calendarCalls w) = Resolved i \<and> \<not> truthy i \<longrightarrow>
             r = Inl (Error (''Failed to create calendar event: ''
                    @ ''Calendar event creation failed: ''
                    @ ''Calendar event creation failed: no event ID returned''))
             \<and> (\<exists>a. newEvents w w' =
                    [RepoGetConflicting (startAt data) (endAt data) None, RepoCreate a,
                     CalendarCreate c, RepoDelete (id' c)]))"
  using createAppointment_outcome [OF run] called
  by (elim disjE exE conjE) (auto split: client_answer.splits)

theorem createAppointment_sync_failure_witness:
  "CalendarCreate created_free
     \<in> set (newEvents world0 (snd (createAppointment env_sync_fail req_free world0)))
   \<and> googleCalendar env_sync_fail (calendarCalls world0) = Rejected api_error
   \<and> dbFault env_sync_fail 2 = Some ''connection lost''
   \<and> fst (createAppointment env_sync_fail req_free world0)
       = Inl (Error ''Failed to create calendar event: Calendar event creation failed (status 503): Calendar API error'')
   \<and> newEvents world0 (snd (createAppointment env_sync_fail req_free world0))
       = [RepoGetConflicting 46800000 50400000 None,
          RepoCreate (created_free\<lparr>id' := None\<rparr>),
          CalendarCreate created_free, RepoDelete (Some id_new)]
   \<and> length (appointments (snd (createAppointment env_sync_fail req_free world0))) = 4
   \<and> CalendarCreate created_free
     \<in> set (newEvents world0 (snd (createAppointment env_no_id req_free world0)))
   \<and> googleCalendar env_no_id (calendarCalls world0) = Resolved None
   \<and> fst (createAppointment env_no_id req_free world0)
       = Inl (Error ''Failed to create calendar event: Calendar event creation failed: Calendar event creation failed: no event ID returned'')
   \<and> last (newEvents world0 (snd (createAppointment env_no_id req_free world0)))
       = RepoDelete (Some id_new)
   \<and> length (appointments (snd (createAppointment env_no_id req_free world0))) = 3"
proof -
  have run: "createAppointment env_sync_fail req_free world0
      = (fst (createAppointment env_sync_fail req_free world0),
         snd (createAppointment env_sync_fail req_free world0))"
    by simp
  have called: "CalendarCreate created_free
     \<in> set (newEvents world0 (snd (createAppointment env_sync_fail req_free world0)))"
    by (simp add: concrete_defs repo_defs req_free_def created_free_def env_sync_fail_def
          createAppointment_def rollbackCreate_def newAppointmentEntity_def newEvents_def)
  have fault: "googleCalendar env_sync_fail (calendarCalls world0) = Rejected api_error"
    by (simp add: concrete_defs env_sync_fail_def)
  have details: "failureDetails env_sync_fail api_error = '' (status 503): Calendar API error''"
    by (simp add: concrete_defs env_sync_fail_def calendar_defs)
  have first: "hd (tl (newEvents world0 (snd (createAppointment env_sync_fail req_free world0))))
      = RepoCreate (created_free\<lparr>id' := None\<rparr>)"
    by (simp add: concrete_defs repo_defs req_free_def created_free_def env_sync_fail_def
          createAppointment_def rollbackCreate_def newAppointmentEntity_def newEvents_def)
  have orphan: "length (appointments (snd (createAppointment env_sync_fail req_free world0))) = 4"
    by (simp add: concrete_defs repo_defs req_free_def created_free_def env_sync_fail_def
          createAppointment_def rollbackCreate_def newAppointmentEntity_def)
  have run': "createAppointment env_no_id req_free world0
      = (fst (createAppointment env_no_id req_free world0),
         snd (createAppointment env_no_id req_free world0))"
    by simp
  have called': "CalendarCreate created_free
     \<in> set (newEvents world0 (snd (createAppointment env_no_id req_free world0)))"
    by (simp add: concrete_defs repo_defs req_free_def created_free_def env_no_id_def
          createAppointment_def rollbackCreate_def newAppointmentEntity_def newEvents_def)
  have fault': "googleCalendar env_no_id (calendarCalls world0) = Resolved None"
    by (simp add: concrete_defs env_no_id_def)
  have gone: "length (appointments (snd (createAppointment env_no_id req_free world0))) = 3"
    by (simp add: concrete_defs repo_defs req_free_def created_free_def env_no_id_def
          createAppointment_def rollbackCreate_def newAppointmentEntity_def)
  have ids: "id' created_free = Some id_new" "dbFault env_sync_fail 2 = Some ''connection lost''"
    by (simp_all add: created_free_def env_sync_fail_def)
  from createAppointment_sync_failure [OF run called] fault details first
  have one: "fst (createAppointment env_sync_fail req_free world0)
       = Inl (Error ''Failed to create calendar event: Calendar event creation failed (status 503): Calendar API error'')"
    "newEvents world0 (snd (createAppointment env_sync_fail req_free world0))
       = [RepoGetConflicting 46800000 50400000 None,
          RepoCreate (created_free\<lparr>id' := None\<rparr>),
          CalendarCreate created_free, RepoDelete (Some id_new)]"
    by (auto simp: ids req_free_def)
  from createAppointment_sync_failure [OF run' called'] fault'
  have two: "fst (createAppointment env_no_id req_free world0)
       = Inl (Error ''Failed to create calendar event: Calendar event creation failed: Calendar event creation failed: no event ID returned'')"
    "last (newEvents world0 (snd (createAppointment env_no_id req_free world0)))
       = RepoDelete (Some id_new)"
    by (auto simp: ids truthy_def)
  from one two called fault orphan called' fault' gone ids show ?thesis
    by simp
qed

section \<open>Failures of the validation phase\<close>

text \<open>
  Claim C10. A call that fails in its validation phase leaves the table as it was and
  made no writing call (\<^verbatim>\<open>create\<close>, \<^verbatim>\<open>update\<close>, \<^verbatim>\<open>delete\<close>) on the store:
  \<^verbatim>\<open>createAppointment\<close> failing with \<^verbatim>\<open>TimeSlotUnavailableError\<close>, \<^verbatim>\<open>editAppointment\<close>
  failing with \<^verbatim>\<open>NotFoundError\<close> or \<^verbatim>\<open>TimeSlotUnavailableError\<close>, \<^verbatim>\<open>cancelAppointment\<close>
  failing with \<^verbatim>\<open>NotFoundError\<close> or \<^verbatim>\<open>AppointmentCancellationError\<close>.
\<close>

theorem validation_failure_leaves_store_untouched:
  "(createAppointment env data w = (Inl (TimeSlotUnavailableError m), wc) \<longrightarrow>
      appointments wc = appointments w \<and> \<not> list_ex isWrite (newEvents w wc))
   \<and> (editAppointment env i pdata w = (Inl (NotFoundError m), we)
       \<or> editAppointment env i pdata w = (Inl (TimeSlotUnavailableError m), we) \<longrightarrow>
      appointments we = appointments w \<and> \<not> list_ex isWrite (newEvents w we))
   \<and> (cancelAppointment env i w = (Inl (NotFoundError m), wx)
       \<or> cancelAppointment env i w = (Inl (AppointmentCancellationError m), wx) \<longrightarrow>
      appointments wx = appointments w \<and> \<not> list_ex isWrite (newEvents w wx))"
proof (intro conjI impI)
  assume run: "createAppointment env data w = (Inl (TimeSlotUnavailableError m), wc)"
  from createAppointment_outcome [OF run]
  have "appointments wc = appointments w \<and> \<not> list_ex isWrite (newEvents w wc)"
    by (elim disjE exE conjE) auto
  then show "appointments wc = appointments w" "\<not> list_ex isWrite (newEvents w wc)"
    by simp_all
next
  assume "editAppointment env i pdata w = (Inl (NotFoundError m), we)
       \<or> editAppointment env i pdata w = (Inl (TimeSlotUnavailableError m), we)"
  then obtain e where run: "editAppointment env i pdata w = (Inl e, we)"
    and kind: "e = NotFoundError m \<or> e = TimeSlotUnavailableError m"
    by auto
  from editAppointment_outcome [OF run] kind
  have "appointments we = appointments w \<and> \<not> list_ex isWrite (newEvents w we)"
    by (auto dest!: applyEdit_outcome)
  then show "appointments we = appointments w" "\<not> list_ex isWrite (newEvents w we)"
    by simp_all
next
  assume "cancelAppointment env i w = (Inl (NotFoundError m), wx)
       \<or> cancelAppointment env i w = (Inl (AppointmentCancellationError m), wx)"
  then obtain e where run: "cancelAppointment env i w = (Inl e, wx)"
    and kind: "e = NotFoundError m \<or> e = AppointmentCancellationError m"
    by auto
  from cancelAppointment_outcome [OF run] kind
  have "appointments wx = appointments w \<and> \<not> list_ex isWrite (newEvents w wx)"
    by (elim disjE exE conjE) auto
  then show "appointments wx = appointments w" "\<not> list_ex isWrite (newEvents w wx)"
    by simp_all
qed


theorem validation_failure_leaves_store_untouched_witness:
  "fst (createAppointment env0 req_john world0)
     = Inl (TimeSlotUnavailableError (createSamePersonMessage env0 37800000 41400000))
   \<and> appointments (snd (createAppointment env0 req_john world0)) = appointments world0
   \<and> \<not> list_ex isWrite (newEvents world0 (snd (createAppointment env0 req_john world0)))
   \<and> fst (editAppointment env0 id_a payload_clash world0)
     = Inl (TimeSlotUnavailableError editBookedMessage)
   \<and> appointments (snd (editAppointment env0 id_a payload_clash world0)) = appointments world0
   \<and> \<not> list_ex isWrite (newEvents world0 (snd (editAppointment env0 id_a payload_clash world0)))
   \<and> fst (cancelAppointment env0 id_c world0)
     = Inl (AppointmentCancellationError ''Appointment is already cancelled'')
   \<and> appointments (snd (cancelAppointment env0 id_c world0)) = appointments world0
   \<and> \<not> list_ex isWrite (newEvents world0 (snd (cancelAppointment env0 id_c world0)))"
proof -
  have c: "createAppointment env0 req_john world0
      = (Inl (TimeSlotUnavailableError (createSamePersonMessage env0 37800000 41400000)),
         snd (createAppointment env0 req_john world0))"
    by (simp add: prod_eq_iff concrete_defs repo_defs req_john_def createAppointment_def
          samePerson_def)
  have e: "editAppointment env0 id_a payload_clash world0
      = (Inl (TimeSlotUnavailableError editBookedMessage),
         snd (editAppointment env0 id_a payload_clash world0))"
    by (simp add: prod_eq_iff concrete_defs repo_defs payload_clash_def editAppointment_def
          samePerson_def)
  have x: "cancelAppointment env0 id_c world0
      = (Inl (AppointmentCancellationError ''Appointment is already cancelled''),
         snd (cancelAppointment env0 id_c world0))"
    by (simp add: prod_eq_iff concrete_defs repo_defs cancelAppointment_def
          validateAppointmentCanBeCancelled_def)
  from validation_failure_leaves_store_untouched
         [of env0 req_john world0 "createSamePersonMessage env0 37800000 41400000"
             "snd (createAppointment env0 req_john world0)"] c
  have c': "appointments (snd (createAppointment env0 req_john world0)) = appointments world0
      \<and> \<not> list_ex isWrite (newEvents world0 (snd (createAppointment env0 req_john world0)))"
    by blast
  from validation_failure_leaves_store_untouched
         [of env0 _ world0 editBookedMessage _ "id_a" payload_clash
             "snd (editAppointment env0 id_a payload_clash world0)"] e
  have e': "appointments (snd (editAppointment env0 id_a payload_clash world0)) = appointments world0
      \<and> \<not> list_ex isWrite (newEvents world0 (snd (editAppointment env0 id_a payload_clash world0)))"
    by blast
  from validation_failure_leaves_store_untouched
         [of env0 _ world0 "''Appointment is already cancelled''" _ "id_c" _ _
             "snd (cancelAppointment env0 id_c world0)"] x
  have x': "appointments (snd (cancelAppointment env0 id_c world0)) = appointments world0
      \<and> \<not> list_ex isWrite (newEvents world0 (snd (cancelAppointment env0 id_c world0)))"
    by blast
  from c e x c' e' x' show ?thesis
    by (metis fst_conv)
qed

section \<open>Cancelling an appointment\<close>

text \<open>
  Claim C3. Let \<open>appt\<close> be the appointment found for the identifier and \<open>now\<close> the
  clock reading the validation takes. If the status of \<open>appt\<close> is cancelled or completed,
  or its start minus \<open>now\<close> is less than two hours (7200000 ms), \<^verbatim>\<open>cancelAppointment\<close>
  fails with \<^verbatim>\<open>AppointmentCancellationError\<close>, the table is what it was, and no writing
  call was made on the store. Otherwise, so also when the start is exactly two hours
  away, it does not fail with that error and calls \<^verbatim>\<open>update\<close> with the appointment set to
  cancelled; on a table that satisfies the constraints of the schema, the query of that
  update being answered, it returns \<^verbatim>\<open>true\<close> and the stored row is cancelled.
\<close>

theorem cancelAppointment_lead_time:
  assumes found: "findById env (Some i) w = (Inr (Some appt), w1)"
      and run: "cancelAppointment env i w = (r, w')"
  shows "(status appt = CANCELLED \<or> status appt = COMPLETED
            \<or> startAt appt - clock env (clockReads w) < 7200000
          \<longrightarrow> (\<exists>m. r = Inl (AppointmentCancellationError m))
              \<and> appointments w' = appointments w
              \<and> \<not> list_ex isWrite (newEvents w w'))
       \<and> (status appt \<noteq> CANCELLED \<and> status appt \<noteq> COMPLETED
            \<and> 7200000 \<le> startAt appt - clock env (clockReads w)
          \<longrightarrow> (\<forall>m. r \<noteq> Inl (AppointmentCancellationError m))
              \<and> RepoUpdate (Some i)
                   (appt\<lparr>status := CANCELLED,
                         updatedAt := Some (clock env (Suc (clockReads w)))\<rparr>)
                  \<in> set (newEvents w w')
              \<and> (wf_table (appointments w) \<and> dbFault env (Suc (queries w)) = None
                  \<longrightarrow> r = Inr True
                      \<and> (\<exists>row \<in> set (appointments w'). id_col row = i
                             \<and> status_col row = CANCELLED)))"
proof (intro conjI impI)
  assume "status appt = CANCELLED \<or> status appt = COMPLETED
            \<or> startAt appt - clock env (clockReads w) < 7200000"
  with cancelAppointment_outcome [OF run] found
  have "(\<exists>m. r = Inl (AppointmentCancellationError m))
       \<and> appointments w' = appointments w \<and> \<not> list_ex isWrite (newEvents w w')"
    by (elim disjE exE conjE) auto
  then show "\<exists>m. r = Inl (AppointmentCancellationError m)"
    "appointments w' = appointments w" "\<not> list_ex isWrite (newEvents w w')"
    by simp_all
next
  assume late: "status appt \<noteq> CANCELLED \<and> status appt \<noteq> COMPLETED
            \<and> 7200000 \<le> startAt appt - clock env (clockReads w)"
  with cancelAppointment_outcome [OF run] found
  have "(\<forall>m. r \<noteq> Inl (AppointmentCancellationError m))
      \<and> RepoUpdate (Some i)
           (appt\<lparr>status := CANCELLED, updatedAt := Some (clock env (Suc (clockReads w)))\<rparr>)
          \<in> set (newEvents w w')"
    by (elim disjE exE conjE) auto
  then show "\<forall>m. r \<noteq> Inl (AppointmentCancellationError m)"
    "RepoUpdate (Some i)
           (appt\<lparr>status := CANCELLED, updatedAt := Some (clock env (Suc (clockReads w)))\<rparr>)
          \<in> set (newEvents w w')"
    by simp_all
  assume good: "wf_table (appointments w) \<and> dbFault env (Suc (queries w)) = None"
  from findById_Some_first [OF found]
  obtain row rest where first: "filter (\<lambda>r. Some (id_col r) = Some i) (appointments w) = row # rest"
    and appt: "appt = mapRowToEntity row"
    by auto
  from first have row: "row \<in> set (appointments w)" "id_col row = i"
    by (metis filter_eq_ConsD in_set_conv_decomp, metis (mono_tags, lifting) filter_eq_ConsD option.inject)
  let ?c = "appt\<lparr>status := CANCELLED, updatedAt := Some (clock env (Suc (clockReads w)))\<rparr>"
  have accepted: "\<not> (\<exists>w3 e. appointments w3 = appointments w \<and> queries w3 = Suc (queries w)
         \<and> update env (Some i) ?c w3 = (Inl e, w'))"
  proof
    assume "\<exists>w3 e. appointments w3 = appointments w \<and> queries w3 = Suc (queries w)
         \<and> update env (Some i) ?c w3 = (Inl e, w')"
    then obtain w3 e where w3: "appointments w3 = appointments w" "queries w3 = Suc (queries w)"
      and failed: "update env (Some i) ?c w3 = (Inl e, w')"
      by auto
    from update_same_slot_succeeds [of w3 env "Some i" row rest ?c] good w3 first appt
    have "\<exists>u w''. update env (Some i) ?c w3 = (Inr u, w'')"
      by (simp add: mapRowToEntity_def)
    with failed show False by simp
  qed
  from cancelAppointment_outcome [OF run] found late accepted
  have "r = Inr True
      \<and> appointments w' =
                map (\<lambda>r. if Some (id_col r) = Some i
                         then set_columns ?c (clock env (Suc (Suc (clockReads w)))) r
                         else r)
                    (appointments w)"
    by (elim disjE exE conjE) auto
  then have res: "r = Inr True"
    and tab: "appointments w' =
                map (\<lambda>r. if Some (id_col r) = Some i
                         then set_columns ?c (clock env (Suc (Suc (clockReads w)))) r
                         else r)
                    (appointments w)"
    by simp_all
  let ?row' = "set_columns ?c (clock env (Suc (Suc (clockReads w)))) row"
  have "?row' \<in> set (appointments w')"
    unfolding tab set_map
    by (rule image_eqI [where x = row]) (simp_all add: row)
  moreover from row have "id_col ?row' = i" "status_col ?row' = CANCELLED"
    by (simp_all add: set_columns_def)
  ultimately show "r = Inr True"
    "\<exists>row \<in> set (appointments w'). id_col row = i \<and> status_col row = CANCELLED"
    using res by blast+
qed


theorem cancelAppointment_lead_time_witness:
  "fst (findById env_2h (Some id_a) world0) = Inr (Some (mapRowToEntity row_a))
   \<and> status (mapRowToEntity row_a) = SCHEDULED
   \<and> startAt (mapRowToEntity row_a) - clock env_2h (clockReads world0) = 7200000
   \<and> wf_table (appointments world0) \<and> dbFault env_2h (Suc (queries world0)) = None
   \<and> fst (cancelAppointment env_2h id_a world0) = Inr True
   \<and> (\<exists>row \<in> set (appointments (snd (cancelAppointment env_2h id_a world0))).
         id_col row = id_a \<and> status_col row = CANCELLED)
   \<and> fst (findById env_1h59 (Some id_a) world0) = Inr (Some (mapRowToEntity row_a))
   \<and> startAt (mapRowToEntity row_a) - clock env_1h59 (clockReads world0) = 7140000
   \<and> (\<exists>m. fst (cancelAppointment env_1h59 id_a world0) = Inl (AppointmentCancellationError m))
   \<and> appointments (snd (cancelAppointment env_1h59 id_a world0)) = appointments world0
   \<and> \<not> list_ex isWrite (newEvents world0 (snd (cancelAppointment env_1h59 id_a world0)))"
proof -
  have f2: "findById env_2h (Some id_a) world0
      = (Inr (Some (mapRowToEntity row_a)), snd (findById env_2h (Some id_a) world0))"
    by (simp add: prod_eq_iff concrete_defs env_2h_def findById_def poolFault_def
          record_call_def mapFirstRow_def)
  have f1: "findById env_1h59 (Some id_a) world0
      = (Inr (Some (mapRowToEntity row_a)), snd (findById env_1h59 (Some id_a) world0))"
    by (simp add: prod_eq_iff concrete_defs env_1h59_def findById_def poolFault_def
          record_call_def mapFirstRow_def)
  have r2: "cancelAppointment env_2h id_a world0
      = (fst (cancelAppointment env_2h id_a world0), snd (cancelAppointment env_2h id_a world0))"
    by simp
  have r1: "cancelAppointment env_1h59 id_a world0
      = (fst (cancelAppointment env_1h59 id_a world0),
         snd (cancelAppointment env_1h59 id_a world0))"
    by simp
  have facts: "status (mapRowToEntity row_a) = SCHEDULED"
    "startAt (mapRowToEntity row_a) - clock env_2h (clockReads world0) = 7200000"
    "startAt (mapRowToEntity row_a) - clock env_1h59 (clockReads world0) = 7140000"
    "wf_table (appointments world0)" "dbFault env_2h (Suc (queries world0)) = None"
    by (simp_all add: concrete_defs env_2h_def env_1h59_def mapRowToEntity_def wf_table_def)
  from cancelAppointment_lead_time [OF f2 r2] cancelAppointment_lead_time [OF f1 r1] facts f2 f1
  show ?thesis
    by (simp add: prod_eq_iff)
qed

section \<open>Rescheduling an appointment\<close>

text \<open>
  Claim C7. Let \<open>appt\<close> be the appointment found for the identifier. Every record that
  \<^verbatim>\<open>editAppointment\<close> passes to \<^verbatim>\<open>update\<close> on the store is passed for that identifier
  and has the start, the end and the type of the payload where the payload has them and
  those of \<open>appt\<close> otherwise; its other fields, \<^verbatim>\<open>updatedAt\<close> apart, are those of
  \<open>appt\<close>. The same holds of the persisted record the call returns. The payload's
  other fields are ignored: replacing them by anything else changes neither the result
  nor the world.
\<close>

theorem editAppointment_changes_only_interval_and_type:
  assumes found: "findById env (Some i) w = (Inr (Some appt), w1)"
      and run: "editAppointment env i data w = (r, w')"
  shows "(\<forall>j e. RepoUpdate j e \<in> set (newEvents w w') \<longrightarrow>
            j = Some i
          \<and> startAt e = (case p_startAt data of Some s \<Rightarrow> s | None \<Rightarrow> startAt appt)
          \<and> endAt e = (case p_endAt data of Some s \<Rightarrow> s | None \<Rightarrow> endAt appt)
          \<and> type' e = (case p_type data of Some k \<Rightarrow> k | None \<Rightarrow> type' appt)
          \<and> id' e = id' appt \<and> firstName e = firstName appt \<and> lastName e = lastName appt
          \<and> email e = email appt \<and> phoneNumber e = phoneNumber appt \<and> notes e = notes appt
          \<and> reason e = reason appt \<and> status e = status appt
          \<and> calendarEventId e = calendarEventId appt \<and> createdAt e = createdAt appt)
       \<and> (\<forall>u. r = Inr u \<longrightarrow>
            startAt u = (case p_startAt data of Some s \<Rightarrow> s | None \<Rightarrow> startAt appt)
          \<and> endAt u = (case p_endAt data of Some s \<Rightarrow> s | None \<Rightarrow> endAt appt)
          \<and> type' u = (case p_type data of Some k \<Rightarrow> k | None \<Rightarrow> type' appt)
          \<and> id' u = id' appt \<and> firstName u = firstName appt \<and> lastName u = lastName appt
          \<and> email u = email appt \<and> phoneNumber u = phoneNumber appt \<and> notes u = notes appt
          \<and> reason u = reason appt \<and> status u = status appt
          \<and> calendarEventId u = calendarEventId appt \<and> createdAt u = createdAt appt)
       \<and> editAppointment env i
            (data\<lparr> p_firstName := xFirstName, p_lastName := xLastName, p_email := xEmail,
                   p_phoneNumber := xPhoneNumber, p_notes := xNotes, p_reason := xReason,
                   p_callId := xCallId \<rparr>) w = (r, w')"
proof (intro conjI allI impI)
  show "editAppointment env i
            (data\<lparr> p_firstName := xFirstName, p_lastName := xLastName, p_email := xEmail,
                   p_phoneNumber := xPhoneNumber, p_notes := xNotes, p_reason := xReason,
                   p_callId := xCallId \<rparr>) w = (r, w')"
    using run by (simp only: editAppointment_ignores_other_fields)
next
  fix j e
  assume ev: "RepoUpdate j e \<in> set (newEvents w w')"
  define a where "a = allowedUpdates data (clock env (clockReads w)) appt"
  from editAppointment_found_outcome [OF found run] ev
  have "j = Some i \<and> e = a"
    unfolding a_def by (elim disjE exE conjE) (auto split: if_splits)
  then have j: "j = Some i" and e: "e = a" by simp_all
  show "j = Some i" by (rule j)
  show "startAt e = (case p_startAt data of Some s \<Rightarrow> s | None \<Rightarrow> startAt appt)"
    "endAt e = (case p_endAt data of Some s \<Rightarrow> s | None \<Rightarrow> endAt appt)"
    "type' e = (case p_type data of Some k \<Rightarrow> k | None \<Rightarrow> type' appt)"
    "id' e = id' appt" "firstName e = firstName appt" "lastName e = lastName appt"
    "email e = email appt" "phoneNumber e = phoneNumber appt" "notes e = notes appt"
    "reason e = reason appt" "status e = status appt"
    "calendarEventId e = calendarEventId appt" "createdAt e = createdAt appt"
    by (simp_all add: e a_def allowedUpdates_def)
next
  fix u
  assume ok: "r = Inr u"
  from editAppointment_found_outcome [OF found run] ok
  obtain row t where appt: "appt = mapRowToEntity row"
    and u: "u = mapRowToEntity (set_columns (allowedUpdates data (clock env (clockReads w)) appt) t row)"
    by (elim disjE exE conjE) auto
  from u have "u = mapRowToEntity
          (set_columns (allowedUpdates data (clock env (clockReads w)) (mapRowToEntity row)) t row)"
    unfolding appt .
  then have "u = (mapRowToEntity row)
       \<lparr> startAt := (case p_startAt data of Some s \<Rightarrow> s | None \<Rightarrow> start_at row),
          endAt := (case p_endAt data of Some e \<Rightarrow> e | None \<Rightarrow> end_at row),
          type' := (case p_type data of Some k \<Rightarrow> k | None \<Rightarrow> type_col row),
          updatedAt := Some t \<rparr>"
    by (simp only: mapRowToEntity_set_columns)
  then show "startAt u = (case p_startAt data of Some s \<Rightarrow> s | None \<Rightarrow> startAt appt)"
    "endAt u = (case p_endAt data of Some s \<Rightarrow> s | None \<Rightarrow> endAt appt)"
    "type' u = (case p_type data of Some k \<Rightarrow> k | None \<Rightarrow> type' appt)"
    "id' u = id' appt" "firstName u = firstName appt" "lastName u = lastName appt"
    "email u = email appt" "phoneNumber u = phoneNumber appt" "notes u = notes appt"
    "reason u = reason appt" "status u = status appt"
    "calendarEventId u = calendarEventId appt" "createdAt u = createdAt appt"
    by (simp_all add: appt mapRowToEntity_def split: option.splits)
qed

theorem editAppointment_changes_only_interval_and_type_witness:
  "fst (findById env0 (Some id_a) world0) = Inr (Some (mapRowToEntity row_a))
   \<and> RepoUpdate (Some id_a) moved_a
       \<in> set (newEvents world0 (snd (editAppointment env0 id_a payload_free world0)))
   \<and> fst (editAppointment env0 id_a payload_free world0) = Inr moved_a
   \<and> p_firstName payload_free = Some ''Eve'' \<and> firstName moved_a = ''John''
   \<and> p_email payload_free = Some ''eve@example.com'' \<and> email moved_a = Some ''john@example.com''
   \<and> p_notes payload_free = Some [(''injected'', ''true'')] \<and> notes moved_a = []
   \<and> firstName moved_a = firstName (mapRowToEntity row_a)
   \<and> lastName moved_a = lastName (mapRowToEntity row_a)
   \<and> email moved_a = email (mapRowToEntity row_a)
   \<and> phoneNumber moved_a = phoneNumber (mapRowToEntity row_a)
   \<and> notes moved_a = notes (mapRowToEntity row_a)
   \<and> reason moved_a = reason (mapRowToEntity row_a)
   \<and> status moved_a = status (mapRowToEntity row_a)
   \<and> calendarEventId moved_a = calendarEventId (mapRowToEntity row_a)
   \<and> createdAt moved_a = createdAt (mapRowToEntity row_a)
   \<and> id' moved_a = id' (mapRowToEntity row_a)
   \<and> startAt moved_a = 46800000 \<and> endAt moved_a = 50400000 \<and> type' moved_a = EMERGENCY
   \<and> editAppointment env0 id_a
         (payload_free\<lparr> p_firstName := None, p_lastName := None, p_email := None,
              p_phoneNumber := None, p_notes := None, p_reason := None, p_callId := None \<rparr>)
         world0
       = editAppointment env0 id_a payload_free world0"
proof -
  have found: "findById env0 (Some id_a) world0
      = (Inr (Some (mapRowToEntity row_a)), snd (findById env0 (Some id_a) world0))"
    by (simp add: prod_eq_iff concrete_defs findById_def poolFault_def record_call_def
          mapFirstRow_def)
  have run: "editAppointment env0 id_a payload_free world0
      = (Inr moved_a, snd (editAppointment env0 id_a payload_free world0))"
    by (simp add: prod_eq_iff concrete_defs repo_defs edit_defs payload_free_def moved_a_def)
  have passed: "RepoUpdate (Some id_a) moved_a
       \<in> set (newEvents world0 (snd (editAppointment env0 id_a payload_free world0)))"
    by (simp add: concrete_defs repo_defs edit_defs payload_free_def moved_a_def)
  have payload: "p_firstName payload_free = Some ''Eve''"
    "p_email payload_free = Some ''eve@example.com''"
    "p_notes payload_free = Some [(''injected'', ''true'')]"
    "p_startAt payload_free = Some 46800000" "p_endAt payload_free = Some 50400000"
    "p_type payload_free = Some EMERGENCY"
    by (simp_all add: payload_free_def)
  have old: "firstName (mapRowToEntity row_a) = ''John''"
    "email (mapRowToEntity row_a) = Some ''john@example.com''"
    "notes (mapRowToEntity row_a) = []"
    by (simp_all add: mapRowToEntity_def row_a_def orNull_def truthy_def)
  have vals: "startAt moved_a = 46800000" "endAt moved_a = 50400000" "type' moved_a = EMERGENCY"
    "firstName moved_a = ''John''" "email moved_a = Some ''john@example.com''"
    "notes moved_a = []"
    by (simp_all add: moved_a_def)
  note T = editAppointment_changes_only_interval_and_type
         [OF found run, of None None None None None None None]
  from T passed
  have frame: "firstName moved_a = firstName (mapRowToEntity row_a)
   \<and> lastName moved_a = lastName (mapRowToEntity row_a)
   \<and> email moved_a = email (mapRowToEntity row_a)
   \<and> phoneNumber moved_a = phoneNumber (mapRowToEntity row_a)
   \<and> notes moved_a = notes (mapRowToEntity row_a)
   \<and> reason moved_a = reason (mapRowToEntity row_a)
   \<and> status moved_a = status (mapRowToEntity row_a)
   \<and> calendarEventId moved_a = calendarEventId (mapRowToEntity row_a)
   \<and> createdAt moved_a = createdAt (mapRowToEntity row_a)
   \<and> id' moved_a = id' (mapRowToEntity row_a)"
    by blast
  from T have "editAppointment env0 id_a
         (payload_free\<lparr> p_firstName := None, p_lastName := None, p_email := None,
              p_phoneNumber := None, p_notes := None, p_reason := None, p_callId := None \<rparr>)
         world0
       = (Inr moved_a, snd (editAppointment env0 id_a payload_free world0))"
    by blast
  then have ignored: "editAppointment env0 id_a
         (payload_free\<lparr> p_firstName := None, p_lastName := None, p_email := None,
              p_phoneNumber := None, p_notes := None, p_reason := None, p_callId := None \<rparr>)
         world0
       = editAppointment env0 id_a payload_free world0"
    by (simp only: run [symmetric])
  have results: "fst (findById env0 (Some id_a) world0) = Inr (Some (mapRowToEntity row_a))"
    "fst (editAppointment env0 id_a payload_free world0) = Inr moved_a"
    using found run by (metis fst_conv)+
  from results passed payload(1-3) vals frame ignored show ?thesis
    by blast
qed

section \<open>Calendar failures after the store is written\<close>

text \<open>
  Claim C5. \<^verbatim>\<open>updateCalendarEvent\<close> throws when the Google client rejects the call,
  and \<^verbatim>\<open>deleteCalendarEvent\<close> when the client rejects it with a status other than 404.
  If \<^verbatim>\<open>editAppointment\<close> calls the calendar's update and the client rejects the call,
  the calendar call made at the end of the run threw, yet the operation returns the
  updated record; the update of the store is the call made just before the calendar
  call and nothing follows it, and the table holds, under the identifier, the row of the
  returned record, with the start, end and type the payload asked for. If
  \<^verbatim>\<open>cancelAppointment\<close> calls the calendar's delete and the client rejects the call,
  the operation returns \<^verbatim>\<open>true\<close>, whether the calendar call threw or, on a 404,
  returned; the calls made are the lookup, the update of the store and the calendar
  call, and the row of the identifier is cancelled.
\<close>

theorem calendar_failure_after_store_write:
  "(editAppointment env i data w = (r, w')
      \<and> CalendarUpdate ev u \<in> set (newEvents w w')
      \<and> googleCalendar env (calendarCalls w) = Rejected err
    \<longrightarrow> r = Inr u
        \<and> (\<exists>w2. updateCalendarEvent env ev u w2
                   = (Inl (Error (''Calendar event update failed'' @ failureDetails env err)), w')
                 \<and> appointments w2 = appointments w')
        \<and> (\<exists>pre a. newEvents w w' = pre @ [RepoUpdate (Some i) a, CalendarUpdate ev u])
        \<and> (\<exists>row \<in> set (appointments w'). id_col row = i \<and> mapRowToEntity row = u)
        \<and> (\<forall>s. p_startAt data = Some s \<longrightarrow> startAt u = s)
        \<and> (\<forall>e. p_endAt data = Some e \<longrightarrow> endAt u = e)
        \<and> (\<forall>k. p_type data = Some k \<longrightarrow> type' u = k))
   \<and> (cancelAppointment env i w = (rc, wc)
      \<and> CalendarDelete evc \<in> set (newEvents w wc)
      \<and> googleCalendar env (calendarCalls w) = Rejected err
    \<longrightarrow> rc = Inr True
        \<and> (\<exists>w4. deleteCalendarEvent env evc w4
                   = (if err_code err = JsNumber 404 \<or> err_response_status err = JsNumber 404
                      then Inr ()
                      else Inl (Error (''Calendar event deletion failed''
                                        @ failureDetails env err)), wc)
                 \<and> appointments w4 = appointments wc)
        \<and> (\<exists>a. newEvents w wc =
               [RepoFindById (Some i), RepoUpdate (Some i) a, CalendarDelete evc])
        \<and> (\<exists>row \<in> set (appointments wc). id_col row = i \<and> status_col row = CANCELLED))"
proof (intro conjI impI; elim conjE)
  assume run: "editAppointment env i data w = (r, w')"
    and called: "CalendarUpdate ev u \<in> set (newEvents w w')"
    and rejected: "googleCalendar env (calendarCalls w) = Rejected err"
  from editAppointment_outcome [OF run] called
  obtain appt w1 where found: "findById env (Some i) w = (Inr (Some appt), w1)"
    by (elim disjE exE conjE) auto
  define a where "a = allowedUpdates data (clock env (clockReads w)) appt"
  define t where "t = clock env (Suc (clockReads w))"
  from editAppointment_found_outcome [OF found run] called
  obtain pre row rest where first: "filter (\<lambda>r. Some (id_col r) = Some i) (appointments w) = row # rest"
    and appt: "appt = mapRowToEntity row"
    and u: "u = mapRowToEntity (set_columns a t row)"
    and res: "r = Inr u"
    and tab: "appointments w' =
                 map (\<lambda>r. if Some (id_col r) = Some i then set_columns a t r else r)
                     (appointments w)"
    and evs: "newEvents w w' = RepoFindById (Some i) # pre @ [RepoUpdate (Some i) a, CalendarUpdate ev u]"
    unfolding a_def t_def
    by (elim disjE exE conjE) (auto split: if_splits)
  show "r = Inr u" by (rule res)
  from editAppointment_calendar [OF run called]
  obtain w2 k where k: "updateCalendarEvent env ev u w2 = (k, w')"
    and w2: "calendarCalls w2 = calendarCalls w" "appointments w2 = appointments w'"
    by blast
  from updateCalendarEvent_result [OF k] w2 rejected
  have "k = Inl (Error (''Calendar event update failed'' @ failureDetails env err))"
    by simp
  with k w2 show "\<exists>w2. updateCalendarEvent env ev u w2
                   = (Inl (Error (''Calendar event update failed'' @ failureDetails env err)), w')
                 \<and> appointments w2 = appointments w'"
    by blast
  from evs have "newEvents w w' = (RepoFindById (Some i) # pre) @ [RepoUpdate (Some i) a, CalendarUpdate ev u]"
    by simp
  then show "\<exists>pre a. newEvents w w' = pre @ [RepoUpdate (Some i) a, CalendarUpdate ev u]"
    by blast
  from updated_row_member(3) [OF first, of "set_columns a t"] updated_row_member(2) [OF first] tab
  have "set_columns a t row \<in> set (appointments w')" "id_col (set_columns a t row) = i"
    by (simp_all add: set_columns_def)
  with u show "\<exists>row \<in> set (appointments w'). id_col row = i \<and> mapRowToEntity row = u"
    by blast
  from u have "u = mapRowToEntity
          (set_columns (allowedUpdates data (clock env (clockReads w)) (mapRowToEntity row)) t row)"
    unfolding a_def appt .
  then have shape: "u = (mapRowToEntity row)
       \<lparr> startAt := (case p_startAt data of Some s \<Rightarrow> s | None \<Rightarrow> start_at row),
          endAt := (case p_endAt data of Some e \<Rightarrow> e | None \<Rightarrow> end_at row),
          type' := (case p_type data of Some k \<Rightarrow> k | None \<Rightarrow> type_col row),
          updatedAt := Some t \<rparr>"
    by (simp only: mapRowToEntity_set_columns)
  show "\<forall>s. p_startAt data = Some s \<longrightarrow> startAt u = s"
    "\<forall>e. p_endAt data = Some e \<longrightarrow> endAt u = e"
    "\<forall>k. p_type data = Some k \<longrightarrow> type' u = k"
    by (simp_all add: shape)
next
  assume run: "cancelAppointment env i w = (rc, wc)"
    and called: "CalendarDelete evc \<in> set (newEvents w wc)"
    and rejected: "googleCalendar env (calendarCalls w) = Rejected err"
  from cancelAppointment_outcome [OF run] called
  obtain appt row rest where first: "filter (\<lambda>r. Some (id_col r) = Some i) (appointments w) = row # rest"
    and res: "rc = Inr True"
    and tab: "appointments wc =
                map (\<lambda>r. if Some (id_col r) = Some i
                         then set_columns
                                (appt\<lparr>status := CANCELLED,
                                      updatedAt := Some (clock env (Suc (clockReads w)))\<rparr>)
                                (clock env (Suc (Suc (clockReads w)))) r
                         else r)
                    (appointments w)"
    and evs: "newEvents w wc =
                [RepoFindById (Some i),
                 RepoUpdate (Some i)
                    (appt\<lparr>status := CANCELLED,
                          updatedAt := Some (clock env (Suc (clockReads w)))\<rparr>),
                 CalendarDelete evc]"
    by (elim disjE exE conjE) (auto split: if_splits)
  show "rc = Inr True" by (rule res)
  from cancelAppointment_calendar [OF run called]
  obtain w4 k where k: "deleteCalendarEvent env evc w4 = (k, wc)"
    and w4: "calendarCalls w4 = calendarCalls w" "appointments w4 = appointments wc"
    by blast
  from deleteCalendarEvent_result [OF k] w4 rejected
  have "k = (if err_code err = JsNumber 404 \<or> err_response_status err = JsNumber 404
             then Inr ()
             else Inl (Error (''Calendar event deletion failed'' @ failureDetails env err)))"
    by simp
  with k w4 show "\<exists>w4. deleteCalendarEvent env evc w4
                   = (if err_code err = JsNumber 404 \<or> err_response_status err = JsNumber 404
                      then Inr ()
                      else Inl (Error (''Calendar event deletion failed''
                                        @ failureDetails env err)), wc)
                 \<and> appointments w4 = appointments wc"
    by blast
  from evs show "\<exists>a. newEvents w wc =
               [RepoFindById (Some i), RepoUpdate (Some i) a, CalendarDelete evc]"
    by blast
  let ?f = "set_columns
                (appt\<lparr>status := CANCELLED,
                      updatedAt := Some (clock env (Suc (clockReads w)))\<rparr>)
                (clock env (Suc (Suc (clockReads w))))"
  from updated_row_member(3) [OF first, of ?f] updated_row_member(2) [OF first] tab
  have "?f row \<in> set (appointments wc)" "id_col (?f row) = i" "status_col (?f row) = CANCELLED"
    by (simp_all add: set_columns_def)
  then show "\<exists>row \<in> set (appointments wc). id_col row = i \<and> status_col row = CANCELLED"
    by blast
qed

theorem calendar_failure_after_store_write_witness:
  "CalendarUpdate (Some ''cal-1'') moved_a
     \<in> set (newEvents world0 (snd (editAppointment env_cal_fail id_a payload_free world0)))
   \<and> googleCalendar env_cal_fail (calendarCalls world0) = Rejected api_error
   \<and> fst (updateCalendarEvent env_cal_fail (Some ''cal-1'') moved_a world0)
       = Inl (Error ''Calendar event update failed (status 503): Calendar API error'')
   \<and> fst (editAppointment env_cal_fail id_a payload_free world0) = Inr moved_a
   \<and> (\<exists>row \<in> set (appointments (snd (editAppointment env_cal_fail id_a payload_free world0))).
         id_col row = id_a \<and> mapRowToEntity row = moved_a)
   \<and> CalendarDelete (Some ''cal-1'')
     \<in> set (newEvents world0 (snd (cancelAppointment env_cal_fail id_a world0)))
   \<and> fst (deleteCalendarEvent env_cal_fail (Some ''cal-1'') world0)
       = Inl (Error ''Calendar event deletion failed (status 503): Calendar API error'')
   \<and> fst (cancelAppointment env_cal_fail id_a world0) = Inr True
   \<and> (\<exists>row \<in> set (appointments (snd (cancelAppointment env_cal_fail id_a world0))).
         id_col row = id_a \<and> status_col row = CANCELLED)
   \<and> CalendarDelete (Some ''cal-1'')
     \<in> set (newEvents world0 (snd (cancelAppointment env_gone id_a world0)))
   \<and> googleCalendar env_gone (calendarCalls world0) = Rejected not_found_error
   \<and> fst (deleteCalendarEvent env_gone (Some ''cal-1'') world0) = Inr ()
   \<and> fst (cancelAppointment env_gone id_a world0) = Inr True"
proof -
  have e: "editAppointment env_cal_fail id_a payload_free world0
      = (fst (editAppointment env_cal_fail id_a payload_free world0),
         snd (editAppointment env_cal_fail id_a payload_free world0))"
    by simp
  have ec: "CalendarUpdate (Some ''cal-1'') moved_a
     \<in> set (newEvents world0 (snd (editAppointment env_cal_fail id_a payload_free world0)))"
    by (simp add: concrete_defs repo_defs edit_defs env_cal_fail_def payload_free_def moved_a_def)
  have x: "cancelAppointment env_cal_fail id_a world0
      = (fst (cancelAppointment env_cal_fail id_a world0),
         snd (cancelAppointment env_cal_fail id_a world0))"
    by simp
  have xc: "CalendarDelete (Some ''cal-1'')
     \<in> set (newEvents world0 (snd (cancelAppointment env_cal_fail id_a world0)))"
    by (simp add: concrete_defs repo_defs env_cal_fail_def cancelAppointment_def
          validateAppointmentCanBeCancelled_def newEvents_def)
  have f: "googleCalendar env_cal_fail (calendarCalls world0) = Rejected api_error"
    by (simp add: concrete_defs env_cal_fail_def)
  have g: "cancelAppointment env_gone id_a world0
      = (fst (cancelAppointment env_gone id_a world0),
         snd (cancelAppointment env_gone id_a world0))"
    by simp
  have gc: "CalendarDelete (Some ''cal-1'')
     \<in> set (newEvents world0 (snd (cancelAppointment env_gone id_a world0)))"
    by (simp add: concrete_defs repo_defs env_gone_def cancelAppointment_def
          validateAppointmentCanBeCancelled_def newEvents_def)
  have gf: "googleCalendar env_gone (calendarCalls world0) = Rejected not_found_error"
    by (simp add: concrete_defs env_gone_def)
  have thrown: "fst (updateCalendarEvent env_cal_fail (Some ''cal-1'') moved_a world0)
       = Inl (Error ''Calendar event update failed (status 503): Calendar API error'')"
    "fst (deleteCalendarEvent env_cal_fail (Some ''cal-1'') world0)
       = Inl (Error ''Calendar event deletion failed (status 503): Calendar API error'')"
    "fst (deleteCalendarEvent env_gone (Some ''cal-1'') world0) = Inr ()"
    by (simp_all add: concrete_defs env_cal_fail_def env_gone_def calendar_defs record_call_def)
  from calendar_failure_after_store_write
         [of env_cal_fail "id_a" payload_free world0 _ _ "Some ''cal-1''" moved_a
             api_error _ _ "Some ''cal-1''"]
       e ec x xc f
  have one: "fst (editAppointment env_cal_fail id_a payload_free world0) = Inr moved_a"
    "\<exists>row \<in> set (appointments (snd (editAppointment env_cal_fail id_a payload_free world0))).
         id_col row = id_a \<and> mapRowToEntity row = moved_a"
    "fst (cancelAppointment env_cal_fail id_a world0) = Inr True"
    "\<exists>row \<in> set (appointments (snd (cancelAppointment env_cal_fail id_a world0))).
         id_col row = id_a \<and> status_col row = CANCELLED"
    by blast+
  from calendar_failure_after_store_write
         [of env_gone "id_a" payload_free world0 _ _ "Some ''cal-1''" moved_a
             not_found_error _ _ "Some ''cal-1''"]
       g gc gf
  have two: "fst (cancelAppointment env_gone id_a world0) = Inr True"
    by blast
  from one two ec f xc gc gf thrown show ?thesis by simp
qed

section \<open>Storage errors\<close>

text \<open>
  Claim C4, as stated, fails. A request for the slot of a cancelled appointment passes
  the conflict query; the insert then violates \<^verbatim>\<open>appointments_unique_slot\<close>, and
  \<^verbatim>\<open>createAppointment\<close> fails with the error of the storage layer (SQLSTATE 23505),
  which has no application code, and not with \<^verbatim>\<open>TimeSlotUnavailableError\<close>, whose code
  is \<^verbatim>\<open>TIME_SLOT_UNAVAILABLE\<close>.
\<close>

theorem createAppointment_constraint_counterexample:
  "fst (getConflictingAppointments env0 (startAt req_reuse) (endAt req_reuse) None world0) = Inr []
   \<and> fst (createAppointment env0 req_reuse world0) = Inl (DatabaseError ''23505'')
   \<and> newEvents world0 (snd (createAppointment env0 req_reuse world0))
       = [RepoGetConflicting 43200000 46800000 None,
          RepoCreate (fst (newAppointmentEntity env0 req_reuse world0))]
   \<and> code (DatabaseError ''23505'') = None
   \<and> code (TimeSlotUnavailableError (createBookedMessage env0 43200000 46800000))
       = Some ''TIME_SLOT_UNAVAILABLE''"
  by (simp add: concrete_defs repo_defs req_reuse_def createAppointment_def
        newAppointmentEntity_def newEvents_def)

text \<open>
  Claim C4, amended. When \<^verbatim>\<open>create\<close> on the store fails in \<^verbatim>\<open>createAppointment\<close>, after
  a conflict query that found nothing, the caller receives that very error: an error of
  the storage layer, without application code. When \<^verbatim>\<open>update\<close> on the store fails in
  \<^verbatim>\<open>editAppointment\<close>, after the lookup found the appointment and the conflict query
  was skipped or found nothing, the caller receives that very error: an error of the
  storage layer or the \<^verbatim>\<open>TypeError\<close> of a missing row, without application code. No
  storage error is translated into \<^verbatim>\<open>TimeSlotUnavailableError\<close>.
\<close>

theorem storage_failure_propagates_unchanged:
  "(getConflictingAppointments env (startAt data) (endAt data) None w = (Inr [], w1)
      \<and> newAppointmentEntity env data w1 = (appointment, w2)
      \<and> create env appointment w2 = (Inl e, w3)
    \<longrightarrow> createAppointment env data w = (Inl e, w3)
        \<and> (\<exists>m. e = DatabaseError m) \<and> code e = None)
   \<and> (findById env (Some i) w = (Inr (Some appt), v1)
      \<and> ((p_startAt pdata = None \<or> p_endAt pdata = None) \<and> v2 = v1
          \<or> (\<exists>s t. p_startAt pdata = Some s \<and> p_endAt pdata = Some t
                \<and> getConflictingAppointments env s t (Some i) v1 = (Inr [], v2)))
      \<and> newDate env v2 = (now, v3)
      \<and> update env (Some i) (allowedUpdates pdata now appt) v3 = (Inl e', v4)
    \<longrightarrow> editAppointment env i pdata w = (Inl e', v4)
        \<and> ((\<exists>m. e' = DatabaseError m) \<or> (\<exists>m. e' = TypeError m)) \<and> code e' = None)"
proof (intro conjI impI; elim conjE)
  assume q: "getConflictingAppointments env (startAt data) (endAt data) None w = (Inr [], w1)"
    and n: "newAppointmentEntity env data w1 = (appointment, w2)"
    and c: "create env appointment w2 = (Inl e, w3)"
  from q n c show "createAppointment env data w = (Inl e, w3)"
    by (simp add: createAppointment_def)
  from create_Inl [OF c] show "\<exists>m. e = DatabaseError m" by simp
  then show "code e = None" by auto
next
  assume f: "findById env (Some i) w = (Inr (Some appt), v1)"
    and pre: "(p_startAt pdata = None \<or> p_endAt pdata = None) \<and> v2 = v1
          \<or> (\<exists>s t. p_startAt pdata = Some s \<and> p_endAt pdata = Some t
                \<and> getConflictingAppointments env s t (Some i) v1 = (Inr [], v2))"
    and n: "newDate env v2 = (now, v3)"
    and u: "update env (Some i) (allowedUpdates pdata now appt) v3 = (Inl e', v4)"
  from n u have a: "applyEdit env i pdata appt v2 = (Inl e', v4)"
    by (simp add: applyEdit_def)
  from pre show "editAppointment env i pdata w = (Inl e', v4)"
  proof (elim disjE conjE exE)
    assume "p_startAt pdata = None" "v2 = v1"
    with f a show ?thesis by (simp add: editAppointment_def)
  next
    assume "p_endAt pdata = None" "v2 = v1"
    with f a show ?thesis by (simp add: editAppointment_def split: option.splits)
  next
    fix s t
    assume "p_startAt pdata = Some s" "p_endAt pdata = Some t"
      "getConflictingAppointments env s t (Some i) v1 = (Inr [], v2)"
    with f a show ?thesis by (simp add: editAppointment_def)
  qed
  from update_Inl [OF u] show kind: "(\<exists>m. e' = DatabaseError m) \<or> (\<exists>m. e' = TypeError m)"
    by simp
  then show "code e' = None" by auto
qed


theorem storage_failure_propagates_unchanged_witness:
  "fst (getConflictingAppointments env0 (startAt req_reuse) (endAt req_reuse) None world0) = Inr []
   \<and> fst (createAppointment env0 req_reuse world0) = Inl (DatabaseError ''23505'')
   \<and> fst (findById env0 (Some id_a) world0) = Inr (Some (mapRowToEntity row_a))
   \<and> p_startAt payload_reuse = Some 43200000 \<and> p_endAt payload_reuse = Some 46800000
   \<and> fst (editAppointment env0 id_a payload_reuse world0) = Inl (DatabaseError ''23505'')
   \<and> code (DatabaseError ''23505'') = None"
proof -
  define w1 where
    "w1 = snd (getConflictingAppointments env0 (startAt req_reuse) (endAt req_reuse) None world0)"
  define a where "a = fst (newAppointmentEntity env0 req_reuse w1)"
  define w2 where "w2 = snd (newAppointmentEntity env0 req_reuse w1)"
  define w3 where "w3 = snd (create env0 a w2)"
  have q: "getConflictingAppointments env0 (startAt req_reuse) (endAt req_reuse) None world0
      = (Inr [], w1)"
    by (simp add: w1_def prod_eq_iff concrete_defs repo_defs req_reuse_def)
  have n: "newAppointmentEntity env0 req_reuse w1 = (a, w2)"
    by (simp add: a_def w2_def)
  have c: "create env0 a w2 = (Inl (DatabaseError ''23505''), w3)"
    by (simp add: w3_def a_def w2_def w1_def prod_eq_iff concrete_defs repo_defs req_reuse_def
          newAppointmentEntity_def)
  define v1 where "v1 = snd (findById env0 (Some id_a) world0)"
  define v2 where
    "v2 = snd (getConflictingAppointments env0 43200000 46800000 (Some id_a) v1)"
  define v3 where "v3 = snd (newDate env0 v2)"
  define v4 where
    "v4 = snd (update env0 (Some id_a)
                 (allowedUpdates payload_reuse 1000 (mapRowToEntity row_a)) v3)"
  have f: "findById env0 (Some id_a) world0 = (Inr (Some (mapRowToEntity row_a)), v1)"
    by (simp add: v1_def prod_eq_iff concrete_defs findById_def poolFault_def record_call_def
          mapFirstRow_def)
  have g: "getConflictingAppointments env0 43200000 46800000 (Some id_a) v1 = (Inr [], v2)"
    by (simp add: v2_def v1_def prod_eq_iff concrete_defs repo_defs)
  have payload: "p_startAt payload_reuse = Some 43200000" "p_endAt payload_reuse = Some 46800000"
    by (simp_all add: payload_reuse_def)
  from g payload
  have pre: "(p_startAt payload_reuse = None \<or> p_endAt payload_reuse = None) \<and> v2 = v1
          \<or> (\<exists>s t. p_startAt payload_reuse = Some s \<and> p_endAt payload_reuse = Some t
                \<and> getConflictingAppointments env0 s t (Some id_a) v1 = (Inr [], v2))"
    by simp
  have nd: "newDate env0 v2 = (1000, v3)"
    by (simp add: v3_def newDate_def env0_def)
  have u: "update env0 (Some id_a) (allowedUpdates payload_reuse 1000 (mapRowToEntity row_a)) v3
      = (Inl (DatabaseError ''23505''), v4)"
    by (simp add: v4_def v3_def v2_def v1_def prod_eq_iff concrete_defs repo_defs
          payload_reuse_def allowedUpdates_def)
  from storage_failure_propagates_unchanged
         [where env = env0 and data = req_reuse and w = world0 and ?w1.0 = w1
            and appointment = a and ?w2.0 = w2 and e = "DatabaseError ''23505''" and ?w3.0 = w3
            and i = "id_a" and appt = "mapRowToEntity row_a" and ?v1.0 = v1
            and pdata = payload_reuse and ?v2.0 = v2 and now = 1000 and ?v3.0 = v3
            and e' = "DatabaseError ''23505''" and ?v4.0 = v4]
       q n c f pre nd u
  have "createAppointment env0 req_reuse world0 = (Inl (DatabaseError ''23505''), w3)"
    "editAppointment env0 id_a payload_reuse world0 = (Inl (DatabaseError ''23505''), v4)"
    "code (DatabaseError ''23505'') = None"
    by blast+
  with q f payload show ?thesis
    by (metis fst_conv)
qed

section \<open>Updating a stored record\<close>

text \<open>
  Claim C8, as stated, fails. With no row of the given identifier, \<^verbatim>\<open>update\<close> maps
  \<^verbatim>\<open>result.rows[0]\<close>, which is \<^verbatim>\<open>undefined\<close>, and throws a \<^verbatim>\<open>TypeError\<close>, which has no
  application code, where \<^verbatim>\<open>NotFoundError\<close> has the code \<^verbatim>\<open>NOT_FOUND\<close>. And with a row
  of the given identifier, a new interval that is the slot of another row violates
  \<^verbatim>\<open>appointments_unique_slot\<close>: the update fails and replaces nothing.
\<close>

theorem update_missing_id_counterexample:
  "filter (\<lambda>r. Some (id_col r) = Some id_absent) (appointments world0) = []
   \<and> fst (update env0 (Some id_absent) moved_a world0)
       = Inl (TypeError ''Cannot read properties of undefined'')
   \<and> code (TypeError ''Cannot read properties of undefined'') = None
   \<and> code (NotFoundError (''Appointment with ID '' @ id_absent @ '' not found'')) = Some ''NOT_FOUND''
   \<and> filter (\<lambda>r. Some (id_col r) = Some id_a) (appointments world0) = [row_a]
   \<and> update env0 (Some id_a) (moved_a\<lparr>startAt := 43200000, endAt := 46800000\<rparr>) world0
       = (Inl (DatabaseError ''23505''),
          world0\<lparr> trace := [RepoUpdate (Some id_a)
                                 (moved_a\<lparr>startAt := 43200000, endAt := 46800000\<rparr>)],
                   clockReads := 1, queries := 1 \<rparr>)"
  by (simp add: concrete_defs repo_defs moved_a_def)

text \<open>
  Claim C8, amended. When no row has the given identifier, \<^verbatim>\<open>update\<close> does not return:
  it throws, and the table is what it was. When \<^verbatim>\<open>update\<close> returns, a row had the
  identifier, and the table is the old one with, in the rows of that identifier, exactly
  the columns \<^verbatim>\<open>start_at\<close>, \<^verbatim>\<open>end_at\<close>, \<^verbatim>\<open>type\<close>, \<^verbatim>\<open>notes\<close>,
  \<^verbatim>\<open>calendar_event_id\<close> and \<^verbatim>\<open>status\<close> replaced by the fields of the record and
  \<^verbatim>\<open>updated_at\<close> by the time of the call; what it returns is the entity of such a row.
  Whenever \<^verbatim>\<open>update\<close> throws, the table is what it was.
\<close>

theorem update_replaces_mutable_fields:
  "(filter (\<lambda>r. Some (id_col r) = ident) (appointments w) = []
    \<longrightarrow> (\<exists>e w'. update env ident a w = (Inl e, w') \<and> appointments w' = appointments w))
   \<and> (update env ident a w = (Inr u, w')
    \<longrightarrow> (\<exists>row rest. filter (\<lambda>r. Some (id_col r) = ident) (appointments w) = row # rest)
        \<and> appointments w' =
            map (\<lambda>r. if Some (id_col r) = ident
                     then r\<lparr> start_at := startAt a, end_at := endAt a, type_col := type' a,
                             notes_col := notes a, calendar_event_id := calendarEventId a,
                             status_col := status a,
                             updated_at := Some (clock env (clockReads w)) \<rparr>
                     else r)
                (appointments w)
        \<and> (\<exists>row \<in> set (appointments w'). Some (id_col row) = ident \<and> u = mapRowToEntity row))
   \<and> (update env ident a w = (Inl e, w'') \<longrightarrow> appointments w'' = appointments w)"
proof (intro conjI impI)
  assume "update env ident a w = (Inl e, w'')"
  from update_Inl [OF this] show "appointments w'' = appointments w" by simp
next
  assume none: "filter (\<lambda>r. Some (id_col r) = ident) (appointments w) = []"
  obtain r w' where run: "update env ident a w = (r, w')" by fastforce
  show "\<exists>e w'. update env ident a w = (Inl e, w') \<and> appointments w' = appointments w"
  proof (cases r)
    case (Inl e)
    with run update_Inl [of env ident a w e w'] show ?thesis by auto
  next
    case (Inr u)
    with run update_Inr_first [of env ident a w u w'] none show ?thesis by auto
  qed
next
  assume run: "update env ident a w = (Inr u, w')"
  from update_Inr_first [OF run]
  obtain row rest where first: "filter (\<lambda>r. Some (id_col r) = ident) (appointments w) = row # rest"
    and u: "u = mapRowToEntity (set_columns a (clock env (clockReads w)) row)"
    and tab: "appointments w' =
            map (\<lambda>r. if Some (id_col r) = ident then set_columns a (clock env (clockReads w)) r else r)
                (appointments w)"
    by auto
  from first show "\<exists>row rest. filter (\<lambda>r. Some (id_col r) = ident) (appointments w) = row # rest"
    by blast
  from tab show "appointments w' =
            map (\<lambda>r. if Some (id_col r) = ident
                     then r\<lparr> start_at := startAt a, end_at := endAt a, type_col := type' a,
                             notes_col := notes a, calendar_event_id := calendarEventId a,
                             status_col := status a,
                             updated_at := Some (clock env (clockReads w)) \<rparr>
                     else r)
                (appointments w)"
    unfolding set_columns_def .
  from first have "row \<in> set (filter (\<lambda>r. Some (id_col r) = ident) (appointments w))" by simp
  then have row: "row \<in> set (appointments w)" "Some (id_col row) = ident" by simp_all
  let ?row' = "set_columns a (clock env (clockReads w)) row"
  have "?row' \<in> set (appointments w')"
    unfolding tab set_map by (rule image_eqI [where x = row]) (simp_all add: row)
  moreover have "Some (id_col ?row') = ident" using row by (simp add: set_columns_def)
  ultimately show "\<exists>row \<in> set (appointments w'). Some (id_col row) = ident \<and> u = mapRowToEntity row"
    using u by blast
qed

theorem update_replaces_mutable_fields_witness:
  "filter (\<lambda>r. Some (id_col r) = Some id_absent) (appointments world0) = []
   \<and> (\<exists>e. fst (update env0 (Some id_absent) moved_a world0) = Inl e)
   \<and> appointments (snd (update env0 (Some id_absent) moved_a world0)) = appointments world0
   \<and> fst (update env0 (Some id_a) moved_a world0) = Inr moved_a
   \<and> appointments (snd (update env0 (Some id_a) moved_a world0))
       = [row_a\<lparr> start_at := 46800000, end_at := 50400000, type_col := EMERGENCY,
                  notes_col := [], calendar_event_id := Some ''cal-1'',
                  status_col := SCHEDULED, updated_at := Some 1000 \<rparr>, row_b, row_c]"
proof -
  have none: "filter (\<lambda>r. Some (id_col r) = Some id_absent) (appointments world0) = []"
    by (simp add: concrete_defs)
  have run: "update env0 (Some id_a) moved_a world0
      = (Inr moved_a, snd (update env0 (Some id_a) moved_a world0))"
    by (simp add: prod_eq_iff concrete_defs repo_defs moved_a_def)
  from update_replaces_mutable_fields [of "Some id_absent" world0 env0 moved_a] none
  have missing: "(\<exists>e. fst (update env0 (Some id_absent) moved_a world0) = Inl e)
      \<and> appointments (snd (update env0 (Some id_absent) moved_a world0)) = appointments world0"
    by (metis fst_conv snd_conv)
  from update_replaces_mutable_fields
         [of "Some id_a" world0 env0 moved_a moved_a "snd (update env0 (Some id_a) moved_a world0)"]
       run
  have "appointments (snd (update env0 (Some id_a) moved_a world0)) =
            map (\<lambda>r. if Some (id_col r) = Some id_a
                     then r\<lparr> start_at := startAt moved_a, end_at := endAt moved_a,
                             type_col := type' moved_a, notes_col := notes moved_a,
                             calendar_event_id := calendarEventId moved_a,
                             status_col := status moved_a,
                             updated_at := Some (clock env0 (clockReads world0)) \<rparr>
                     else r)
                (appointments world0)"
    by blast
  then have present: "appointments (snd (update env0 (Some id_a) moved_a world0))
       = [row_a\<lparr> start_at := 46800000, end_at := 50400000, type_col := EMERGENCY,
                  notes_col := [], calendar_event_id := Some ''cal-1'',
                  status_col := SCHEDULED, updated_at := Some 1000 \<rparr>, row_b, row_c]"
    by (simp add: concrete_defs moved_a_def)
  from run have "fst (update env0 (Some id_a) moved_a world0) = Inr moved_a"
    by (metis fst_conv)
  with none missing present show ?thesis by blast
qed

section \<open>Active appointments of a contact\<close>

text \<open>
  Claim C9 asks for the most recent start first. On a table that holds two active
  appointments of one contact, the one starting at 14:00 stored before the one starting
  at 10:00, \<^verbatim>\<open>getActiveAppointmentsByEmailOrPhone\<close> returns the one starting at 10:00
  first: the query orders by \<^verbatim>\<open>start_at\<close> ascending.
\<close>

theorem getActiveAppointments_ascending:
  "fst (getActiveAppointmentsByEmailOrPhone env0 ''john@example.com'' world_two)
     = Inr [mapRowToEntity row_a, mapRowToEntity row_d]
   \<and> startAt (mapRowToEntity row_a) = 36000000
   \<and> startAt (mapRowToEntity row_d) = 50400000"
  by (simp add: getActiveAppointmentsByEmailOrPhone_def poolFault_def record_call_def
        isActive_def concrete_defs world_two_def row_d_def mapRowToEntity_def)

end
